theory Spec2Isabelle
  imports Main "HOL-Library.AList" "HOL-Library.Sublist"
begin

section \<open>Python values, exceptions and the document tree\<close>

text \<open>
  The exceptions the two parsers can raise: the typed ingest exceptions of
  \<^verbatim>\<open>adsingestp.ingest_exceptions\<close> and the built-in Python errors that the
  code raises implicitly (a missing attribute or dictionary key, a method called on
  \<^verbatim>\<open>None\<close>, a local variable read before it is bound).
\<close>

datatype exn =
    MissingAuthorsException
  | MissingTitleException
  | NoSchemaException
  | WrongSchemaException
  | XmlLoadException
  | KeyError
  | AttributeError
  | UnboundLocalError
  | TypeError

text \<open>
  The values stored in \<^verbatim>\<open>base_metadata\<close>: strings, lists, tuples and
  dictionaries. A dictionary is an association list in insertion order; assigning to
  an existing key replaces the value in place, assigning to a new key appends it.
\<close>

datatype jval =
    JStr string
  | JList "jval list"
  | JTuple "jval list"
  | JDict "(string \<times> jval) list"

type_synonym pydict = "(string \<times> jval) list"

definition dict_set :: "string \<Rightarrow> jval \<Rightarrow> pydict \<Rightarrow> pydict" where
  "dict_set k v d = AList.update k v d"

definition dict_get :: "pydict \<Rightarrow> string \<Rightarrow> jval option" where
  "dict_get d k = map_of d k"

definition dict_keys :: "pydict \<Rightarrow> string set" where
  "dict_keys d = fst ` set d"

text \<open>
  The parsed document (the BeautifulSoup tree): an element with its qualified tag name,
  its attributes and its children, or a text node. Characters stand for code points
  below 256.
\<close>

datatype xml =
    Elem string "(string \<times> string) list" "xml list"
  | Text string

fun is_elem :: "xml \<Rightarrow> bool" where
  "is_elem (Elem t a cs) = True"
| "is_elem (Text s) = False"

fun tag_name :: "xml \<Rightarrow> string" where
  "tag_name (Elem t a cs) = t"
| "tag_name (Text s) = []"

fun attrs_of :: "xml \<Rightarrow> (string \<times> string) list" where
  "attrs_of (Elem t a cs) = a"
| "attrs_of (Text s) = []"

text \<open>All nodes below a node, in document order (what \<^verbatim>\<open>find_all\<close> walks).\<close>

fun descendants :: "xml \<Rightarrow> xml list" where
  "descendants (Text s) = []"
| "descendants (Elem t a cs) = concat (map (\<lambda>c. c # descendants c) cs)"

text \<open>
  The tree library keeps the prefix and the local name of a tag apart, and a search name
  matches a tag when it is the tag's qualified name or its local name: a search for
  \<^verbatim>\<open>dc:title\<close> finds \<^verbatim>\<open><dc:title>\<close>, and a search for
  \<^verbatim>\<open>title\<close> finds both \<^verbatim>\<open><title>\<close> and \<^verbatim>\<open><dc:title>\<close>.
\<close>

definition local_name :: "string \<Rightarrow> string" where
  "local_name qn =
     (if CHR '':'' \<in> set qn then tl (dropWhile (\<lambda>c. c \<noteq> CHR '':'') qn) else qn)"

definition tag_matches :: "string \<Rightarrow> string \<Rightarrow> bool" where
  "tag_matches name qn = (qn = name \<or> local_name qn = name)"

definition find_all :: "string \<Rightarrow> xml \<Rightarrow> xml list" where
  "find_all name n = filter (\<lambda>d. is_elem d \<and> tag_matches name (tag_name d)) (descendants n)"

text \<open>\<^verbatim>\<open>find\<close> returns the first match or \<^verbatim>\<open>None\<close>; a tag is always truthy.\<close>

definition find_first :: "string \<Rightarrow> xml \<Rightarrow> xml option" where
  "find_first name n = (case find_all name n of [] \<Rightarrow> None | x # xs \<Rightarrow> Some x)"

fun get_text :: "xml \<Rightarrow> string" where
  "get_text (Text s) = s"
| "get_text (Elem t a cs) = concat (map get_text cs)"

text \<open>\<^verbatim>\<open>tag[name]\<close> raises \<^verbatim>\<open>KeyError\<close> when the attribute is missing.\<close>

definition get_item :: "xml \<Rightarrow> string \<Rightarrow> exn + string" where
  "get_item n name = (case map_of (attrs_of n) name of None \<Rightarrow> Inl KeyError | Some v \<Rightarrow> Inr v)"

definition has_attr :: "xml \<Rightarrow> string \<Rightarrow> bool" where
  "has_attr n name = (map_of (attrs_of n) name \<noteq> None)"

text \<open>\<^verbatim>\<open>tag.get(name, default)\<close>.\<close>

definition get_default :: "xml \<Rightarrow> string \<Rightarrow> string \<Rightarrow> string" where
  "get_default n name dflt = (case map_of (attrs_of n) name of None \<Rightarrow> dflt | Some v \<Rightarrow> v)"

text \<open>\<^verbatim>\<open>s.split(c)\<close> for a one-character separator: never empty.\<close>

fun split_on :: "char \<Rightarrow> string \<Rightarrow> string list" where
  "split_on c [] = [[]]"
| "split_on c (x # xs) =
     (if x = c then [] # split_on c xs
      else (case split_on c xs of [] \<Rightarrow> [[x]] | w # ws \<Rightarrow> (x # w) # ws))"

text \<open>\<^verbatim>\<open>sep.join(xs)\<close>.\<close>

fun join :: "string \<Rightarrow> string list \<Rightarrow> string" where
  "join sep [] = []"
| "join sep [x] = x"
| "join sep (x # y # ys) = x @ sep @ join sep (y # ys)"

text \<open>\<^verbatim>\<open>sub in s\<close> on strings: \<^verbatim>\<open>sub\<close> occurs somewhere in \<^verbatim>\<open>s\<close>.\<close>

fun contains :: "string \<Rightarrow> string \<Rightarrow> bool" where
  "contains sub [] = (sub = [])"
| "contains sub (x # xs) = (prefix sub (x # xs) \<or> contains sub xs)"

text \<open>
  \<^verbatim>\<open>s.replace(old, new)\<close>: every non-overlapping occurrence, left to right. For
  an empty \<^verbatim>\<open>old\<close> Python inserts \<^verbatim>\<open>new\<close> before every character and at the end.
\<close>

function replace_ne :: "string \<Rightarrow> string \<Rightarrow> string \<Rightarrow> string" where
  "replace_ne old new [] = []"
| "replace_ne old new (x # xs) =
     (if old \<noteq> [] \<and> prefix old (x # xs)
      then new @ replace_ne old new (drop (length old) (x # xs))
      else x # replace_ne old new xs)"
  by pat_completeness auto
termination
  by (relation "measure (\<lambda>(old, new, s). length s)") auto

definition replace :: "string \<Rightarrow> string \<Rightarrow> string \<Rightarrow> string" where
  "replace old new s =
     (if old = [] then new @ concat (map (\<lambda>c. c # new) s) else replace_ne old new s)"

text \<open>\<^verbatim>\<open>str.isspace\<close> on the code points below 256.\<close>

definition is_space :: "char \<Rightarrow> bool" where
  "is_space c = (of_char c \<in> {9, 10, 11, 12, 13, 28, 29, 30, 31, 32, 133, 160 :: nat})"

definition strip :: "string \<Rightarrow> string" where
  "strip s = rev (dropWhile is_space (rev (dropWhile is_space s)))"

text \<open>\<^verbatim>\<open>s.split()\<close>: the maximal runs of non-whitespace characters.\<close>

fun split_ws_aux :: "string \<Rightarrow> string \<Rightarrow> string list" where
  "split_ws_aux cur [] = (if cur = [] then [] else [cur])"
| "split_ws_aux cur (x # xs) =
     (if is_space x then (if cur = [] then split_ws_aux [] xs else cur # split_ws_aux [] xs)
      else split_ws_aux (cur @ [x]) xs)"

definition split_ws :: "string \<Rightarrow> string list" where
  "split_ws s = split_ws_aux [] s"

text \<open>\<^verbatim>\<open>s[-5:]\<close>.\<close>

definition last5 :: "string \<Rightarrow> string" where
  "last5 s = drop (length s - 5) s"

text \<open>The text nodes below a node, and \<^verbatim>\<open>get_text(separator=sep, strip=True)\<close>.\<close>

fun all_strings :: "xml \<Rightarrow> string list" where
  "all_strings (Text s) = [s]"
| "all_strings (Elem t a cs) = concat (map all_strings cs)"

definition get_text_strip :: "string \<Rightarrow> xml \<Rightarrow> string" where
  "get_text_strip sep n = join sep (filter (\<lambda>s. s \<noteq> []) (map strip (all_strings n)))"

text \<open>Loops whose body may raise: the first exception ends the loop.\<close>

fun efold :: "('a \<Rightarrow> 's \<Rightarrow> exn + 's) \<Rightarrow> 'a list \<Rightarrow> 's \<Rightarrow> exn + 's" where
  "efold f [] s = Inr s"
| "efold f (x # xs) s = (case f x s of Inl e \<Rightarrow> Inl e | Inr s' \<Rightarrow> efold f xs s')"

definition ebind :: "exn + 'a \<Rightarrow> ('a \<Rightarrow> exn + 'b) \<Rightarrow> exn + 'b" where
  "ebind m f = (case m of Inl e \<Rightarrow> Inl e | Inr x \<Rightarrow> f x)"

text \<open>\<^verbatim>\<open>self.attr.method(...)\<close> on an attribute that may still be \<^verbatim>\<open>None\<close>.\<close>

definition deref :: "xml option \<Rightarrow> exn + xml" where
  "deref n = (case n of None \<Rightarrow> Inl AttributeError | Some x \<Rightarrow> Inr x)"

section \<open>WileyParser\<close>

record wiley_state =
  base_metadata :: pydict
  pubmeta_prod :: "xml option"
  pubmeta_part :: "xml option"
  pubmeta_unit :: "xml option"
  content_meta :: "xml option"
  bib :: "xml option option"

text \<open>
  \<^verbatim>\<open>WileyParser.__init__\<close> assigns every attribute but \<^verbatim>\<open>bib\<close>, which
  \<^verbatim>\<open>parse\<close> assigns first: the outer \<open>None\<close> of \<open>bib\<close> is the attribute
  that does not exist yet, \<open>Some None\<close> is the attribute holding \<^verbatim>\<open>None\<close>.
\<close>

definition WileyParser_init :: wiley_state where
  "WileyParser_init =
     \<lparr>base_metadata = [], pubmeta_prod = None, pubmeta_part = None, pubmeta_unit = None,
      content_meta = None, bib = None\<rparr>"

subsection \<open>\<^verbatim>\<open>_parse_pubdate\<close>\<close>

text \<open>The first half: the print date from \<^verbatim>\<open>coverDate\<close>.\<close>

definition pubdate_print :: "wiley_state \<Rightarrow> exn + wiley_state" where
  "pubdate_print st =
     (case pubmeta_part st of
        None \<Rightarrow> Inl AttributeError
      | Some part \<Rightarrow>
          (case find_first ''coverDate'' part of
             None \<Rightarrow> Inr st
           | Some cd \<Rightarrow>
               (case get_item cd ''startDate'' of
                  Inl e \<Rightarrow> Inl e
                | Inr sd \<Rightarrow>
                    (let pubdate = split_on CHR ''-'' sd;
                         year = pubdate ! 0;
                         month = (if length pubdate > 1 then pubdate ! 1 else ''00'');
                         day = (if length pubdate > 2 then pubdate ! 2 else ''00'')
                     in Inr (st\<lparr>base_metadata :=
                          dict_set ''pubdate_print'' (JStr (year @ ''-'' @ month @ ''-'' @ day))
                            (base_metadata st)\<rparr>)))))"

text \<open>
  The loop over the \<^verbatim>\<open>event\<close> nodes, with the local flag \<^verbatim>\<open>found\<close>.
  A \<^verbatim>\<open>firstOnline\<close> node ends the loop (\<^verbatim>\<open>break\<close>).
\<close>

fun pubdate_events :: "xml list \<Rightarrow> bool \<Rightarrow> pydict \<Rightarrow> exn + pydict" where
  "pubdate_events [] found bm = Inr bm"
| "pubdate_events (d # ds) found bm =
     (case get_item d ''type'' of
        Inl e \<Rightarrow> Inl e
      | Inr ty \<Rightarrow>
          if ty = ''firstOnline'' then
            (case get_item d ''date'' of
               Inl e \<Rightarrow> Inl e
             | Inr dt \<Rightarrow> Inr (dict_set ''pubdate_electronic'' (JStr dt) bm))
          else if ty = ''publishedOnlineFinalForm'' then
            (case get_item d ''date'' of
               Inl e \<Rightarrow> Inl e
             | Inr dt \<Rightarrow> pubdate_events ds True (dict_set ''pubdate_electronic'' (JStr dt) bm))
          else if ty = ''publishedOnlineAccepted'' \<and> \<not> found then
            (case get_item d ''date'' of
               Inl e \<Rightarrow> Inl e
             | Inr dt \<Rightarrow> pubdate_events ds found (dict_set ''pubdate_electronic'' (JStr dt) bm))
          else pubdate_events ds found bm)"

definition WileyParser_parse_pubdate :: "wiley_state \<Rightarrow> exn + wiley_state" where
  "WileyParser_parse_pubdate st =
     (case pubdate_print st of
        Inl e \<Rightarrow> Inl e
      | Inr st1 \<Rightarrow>
          (case pubmeta_unit st1 of
             None \<Rightarrow> Inl AttributeError
           | Some unit \<Rightarrow>
               (case pubdate_events (find_all ''event'' unit) False (base_metadata st1) of
                  Inl e \<Rightarrow> Inl e
                | Inr bm \<Rightarrow> Inr (st1\<lparr>base_metadata := bm\<rparr>))))"

subsection \<open>\<^verbatim>\<open>_parse_ids\<close>, \<^verbatim>\<open>_parse_pub\<close>, \<^verbatim>\<open>_parse_page\<close>\<close>

definition issn_step :: "xml \<Rightarrow> jval list \<Rightarrow> exn + jval list" where
  "issn_step i acc =
     (case get_item i ''type'' of
        Inl e \<Rightarrow> Inl e
      | Inr ty \<Rightarrow> Inr (acc @ [JTuple [JStr ty, JStr (get_text i)]]))"

definition pub_id_step :: "xml \<Rightarrow> jval list \<Rightarrow> exn + jval list" where
  "pub_id_step i acc =
     (case get_item i ''type'' of
        Inl e \<Rightarrow> Inl e
      | Inr ty \<Rightarrow>
          if ty \<notin> set [''society'', ''eLocator''] then
            (case get_item i ''value'' of
               Inl e \<Rightarrow> Inl e
             | Inr v \<Rightarrow> Inr (acc @ [JDict [(''attribute'', JStr ty), (''Identifier'', JStr v)]]))
          else Inr acc)"

definition WileyParser_parse_ids :: "wiley_state \<Rightarrow> exn + wiley_state" where
  "WileyParser_parse_ids st =
     (let bm1 = dict_set ''issn'' (JList []) (dict_set ''ids'' (JDict []) (base_metadata st)) in
      ebind (deref (pubmeta_prod st)) (\<lambda>prod.
      ebind (efold issn_step (find_all ''issn'' prod) []) (\<lambda>issn.
      ebind (deref (pubmeta_unit st)) (\<lambda>unit.
        let ids1 = (case find_first ''doi'' unit of
                      None \<Rightarrow> []
                    | Some n \<Rightarrow> dict_set ''doi'' (JStr (get_text n)) [])
        in
      ebind (efold pub_id_step (find_all ''id'' unit) []) (\<lambda>pub_id.
        Inr (st\<lparr>base_metadata :=
               dict_set ''ids'' (JDict (dict_set ''pub-id'' (JList pub_id) ids1))
                 (dict_set ''issn'' (JList issn) bm1)\<rparr>))))))"

definition pub_title_step :: "xml \<Rightarrow> pydict \<Rightarrow> exn + pydict" where
  "pub_title_step t bm =
     (case get_item t ''type'' of
        Inl e \<Rightarrow> Inl e
      | Inr ty \<Rightarrow>
          if ty = ''main'' then Inr (dict_set ''publication'' (JStr (get_text t)) bm)
          else Inr bm)"

definition pub_numbering_step :: "xml \<Rightarrow> pydict \<Rightarrow> exn + pydict" where
  "pub_numbering_step n bm =
     (case get_item n ''type'' of
        Inl e \<Rightarrow> Inl e
      | Inr ty \<Rightarrow>
          if ty = ''journalVolume'' then Inr (dict_set ''volume'' (JStr (get_text n)) bm)
          else if ty = ''journalIssue'' then Inr (dict_set ''issue'' (JStr (get_text n)) bm)
          else Inr bm)"

definition WileyParser_parse_pub :: "wiley_state \<Rightarrow> exn + wiley_state" where
  "WileyParser_parse_pub st =
     ebind (deref (pubmeta_prod st)) (\<lambda>prod.
     ebind (efold pub_title_step (find_all ''title'' prod) (base_metadata st)) (\<lambda>bm1.
     ebind (deref (pubmeta_part st)) (\<lambda>part.
     ebind (efold pub_numbering_step (find_all ''numbering'' part) bm1) (\<lambda>bm2.
       Inr (st\<lparr>base_metadata := bm2\<rparr>)))))"

text \<open>The loops of \<^verbatim>\<open>_parse_page\<close> carry the local \<^verbatim>\<open>page_first\<close>.\<close>

definition page_numbering_step ::
  "xml \<Rightarrow> string option \<times> pydict \<Rightarrow> exn + (string option \<times> pydict)" where
  "page_numbering_step n s =
     (case get_item n ''type'' of
        Inl e \<Rightarrow> Inl e
      | Inr ty \<Rightarrow>
          if ty = ''pageFirst'' then Inr (Some (get_text n), snd s)
          else if ty = ''pageLast'' then
            (if get_text n \<notin> set [''n/a'', ''no'']
             then Inr (fst s, dict_set ''page_last'' (JStr (get_text n)) (snd s))
             else Inr s)
          else Inr s)"

definition page_id_step ::
  "xml \<Rightarrow> string option \<times> pydict \<Rightarrow> exn + (string option \<times> pydict)" where
  "page_id_step i s =
     (case get_item i ''type'' of
        Inl e \<Rightarrow> Inl e
      | Inr ty \<Rightarrow>
          (let s1 = (if ty = ''society'' then (Some (get_text i), snd s) else s) in
           if ty = ''eLocator''
           then Inr (fst s1, dict_set ''electronic_id'' (JStr (last5 (get_text i))) (snd s1))
           else Inr s1))"

text \<open>Python truth of an optional string: bound and not empty.\<close>

definition truthy :: "string option \<Rightarrow> bool" where
  "truthy s = (case s of None \<Rightarrow> False | Some v \<Rightarrow> v \<noteq> [])"

definition page_count :: "xml \<Rightarrow> pydict \<Rightarrow> exn + pydict" where
  "page_count unit bm =
     (case find_first ''countGroup'' unit of
        None \<Rightarrow> Inr bm
      | Some cg \<Rightarrow>
          (case find_first ''count'' cg of
             None \<Rightarrow> Inr bm
           | Some cnt \<Rightarrow>
               (case get_item cnt ''type'' of
                  Inl e \<Rightarrow> Inl e
                | Inr ty \<Rightarrow>
                    if ty = ''pageTotal'' then
                      (case get_item cnt ''number'' of
                         Inl e \<Rightarrow> Inl e
                       | Inr num \<Rightarrow> Inr (dict_set ''numpages'' (JStr num) bm))
                    else Inr bm)))"

definition WileyParser_parse_page :: "wiley_state \<Rightarrow> exn + wiley_state" where
  "WileyParser_parse_page st =
     ebind (deref (pubmeta_unit st)) (\<lambda>unit.
     ebind (efold page_numbering_step (find_all ''numbering'' unit) (None, base_metadata st)) (\<lambda>s1.
     ebind (if \<not> truthy (fst s1) then efold page_id_step (find_all ''id'' unit) s1 else Inr s1) (\<lambda>s2.
       let page_first = (if fst s2 \<in> set [Some ''n/a'', Some ''no''] then None else fst s2);
           bm3 = (if truthy page_first then dict_set ''page_first'' (JStr (the page_first)) (snd s2)
                  else snd s2)
       in
     ebind (page_count unit bm3) (\<lambda>bm4.
       Inr (st\<lparr>base_metadata := bm4\<rparr>)))))"

subsection \<open>\<^verbatim>\<open>_parse_edhistory\<close>, \<^verbatim>\<open>_parse_title_abstract\<close>, \<^verbatim>\<open>_parse_copyright\<close>\<close>

definition dates_trans :: "(string \<times> string) list" where
  "dates_trans =
     [(''manuscriptRevised'', ''edhist_rev''),
      (''manuscriptReceived'', ''edhist_rec''),
      (''manuscriptAccepted'', ''edhist_acc'')]"

definition edhistory_step :: "xml \<Rightarrow> pydict \<Rightarrow> exn + pydict" where
  "edhistory_step d bm =
     (case get_item d ''type'' of
        Inl e \<Rightarrow> Inl e
      | Inr date_key \<Rightarrow>
          (case map_of dates_trans date_key of
             None \<Rightarrow> Inr bm
           | Some out_key \<Rightarrow>
               (case get_item d ''date'' of
                  Inl e \<Rightarrow> Inl e
                | Inr dt \<Rightarrow>
                    Inr (dict_set out_key
                          (if date_key = ''manuscriptAccepted'' then JStr dt else JList [JStr dt])
                          bm))))"

definition WileyParser_parse_edhistory :: "wiley_state \<Rightarrow> exn + wiley_state" where
  "WileyParser_parse_edhistory st =
     ebind (deref (pubmeta_unit st)) (\<lambda>unit.
     ebind (efold edhistory_step (find_all ''event'' unit) (base_metadata st)) (\<lambda>bm.
       Inr (st\<lparr>base_metadata := bm\<rparr>)))"

definition title_step :: "xml \<Rightarrow> pydict \<Rightarrow> exn + pydict" where
  "title_step t bm =
     (case get_item t ''type'' of
        Inl e \<Rightarrow> Inl e
      | Inr ty \<Rightarrow> if ty = ''main'' then Inr (dict_set ''title'' (JStr (get_text t)) bm) else Inr bm)"

definition abstract_step :: "(string \<Rightarrow> string) \<Rightarrow> xml \<Rightarrow> pydict \<Rightarrow> exn + pydict" where
  "abstract_step clean_output a bm =
     (case get_item a ''type'' of
        Inl e \<Rightarrow> Inl e
      | Inr ty \<Rightarrow>
          if ty = ''main'' then Inr (dict_set ''abstract'' (JStr (clean_output (get_text a))) bm)
          else Inr bm)"

text \<open>
  \<^verbatim>\<open>_clean_output\<close> is inherited from \<^verbatim>\<open>BaseBeautifulSoupParser\<close>; the
  model takes it as the parameter \<open>clean_output\<close>.
\<close>

definition WileyParser_parse_title_abstract ::
  "(string \<Rightarrow> string) \<Rightarrow> wiley_state \<Rightarrow> exn + wiley_state" where
  "WileyParser_parse_title_abstract clean_output st =
     ebind (deref (content_meta st)) (\<lambda>cm.
     ebind (case find_first ''titleGroup'' cm of
              None \<Rightarrow> Inr (base_metadata st)
            | Some tg \<Rightarrow> efold title_step (find_all ''title'' tg) (base_metadata st)) (\<lambda>bm1.
     ebind (case find_first ''abstractGroup'' cm of
              None \<Rightarrow> Inr bm1
            | Some ag \<Rightarrow> efold (abstract_step clean_output) (find_all ''abstract'' ag) bm1) (\<lambda>bm2.
       Inr (st\<lparr>base_metadata := bm2\<rparr>))))"

definition WileyParser_parse_copyright :: "wiley_state \<Rightarrow> exn + wiley_state" where
  "WileyParser_parse_copyright st =
     ebind (deref (pubmeta_unit st)) (\<lambda>unit.
       case find_first ''copyright'' unit of
         None \<Rightarrow> Inr st
       | Some c \<Rightarrow>
           Inr (st\<lparr>base_metadata := dict_set ''copyright'' (JStr (get_text c)) (base_metadata st)\<rparr>))"

subsection \<open>\<^verbatim>\<open>_parse_authors\<close>\<close>

text \<open>
  The pattern \<^verbatim>\<open>(\d{4}-){3}\d{3}(\d|X)\<close>: nineteen characters, hyphens at
  offsets 4, 9 and 14, a digit or \<^verbatim>\<open>X\<close> last, digits elsewhere;
  \<^verbatim>\<open>search\<close> returns the leftmost match.
\<close>

definition is_digit :: "char \<Rightarrow> bool" where
  "is_digit c = (48 \<le> (of_char c :: nat) \<and> (of_char c :: nat) \<le> 57)"

definition orcid_shape :: "string \<Rightarrow> bool" where
  "orcid_shape t =
     (length t = 19 \<and>
      list_all (\<lambda>i. if i \<in> set [4, 9, 14] then t ! i = CHR ''-''
                     else if i = 18 then is_digit (t ! i) \<or> t ! i = CHR ''X''
                     else is_digit (t ! i)) [0..<19])"

fun orcid_search :: "string \<Rightarrow> string option" where
  "orcid_search [] = None"
| "orcid_search (x # xs) =
     (if orcid_shape (take 19 (x # xs)) then Some (take 19 (x # xs)) else orcid_search xs)"

definition affiliation_step ::
  "xml \<Rightarrow> (string \<times> string) list \<Rightarrow> exn + (string \<times> string) list" where
  "affiliation_step a aff_dict =
     (case get_item a ''xml:id'' of
        Inl e \<Rightarrow> Inl e
      | Inr label \<Rightarrow> Inr (AList.update label (get_text_strip '', '' a) aff_dict))"

definition orcid_step :: "xml \<Rightarrow> pydict \<Rightarrow> exn + pydict" where
  "orcid_step i author_tmp =
     (case get_item i ''type'' of
        Inl e \<Rightarrow> Inl e
      | Inr ty \<Rightarrow>
          if ty = ''orcid'' then
            (case get_item i ''value'' of
               Inl e \<Rightarrow> Inl e
             | Inr orcid \<Rightarrow>
                 (case orcid_search orcid of
                    None \<Rightarrow> Inr author_tmp
                  | Some m \<Rightarrow> Inr (dict_set ''orcid'' (JStr m) author_tmp)))
          else Inr author_tmp)"

text \<open>
  One label of \<^verbatim>\<open>affiliationRef\<close>. The local \<^verbatim>\<open>akey\<close> is assigned only
  when the label, or the label without \<^verbatim>\<open>#\<close>, has a non-empty entry in
  \<^verbatim>\<open>aff_dict\<close>; otherwise it keeps the value of an earlier iteration, and reading
  it while still unbound raises \<^verbatim>\<open>UnboundLocalError\<close>.
\<close>

definition aff_label_step ::
  "(string \<times> string) list \<Rightarrow> string \<Rightarrow> string option \<times> string list \<times> string list
     \<Rightarrow> exn + (string option \<times> string list \<times> string list)" where
  "aff_label_step aff_dict a s =
     (case s of (akey, affs, xaffs) \<Rightarrow>
        (let akey' = (if truthy (map_of aff_dict a) then Some a
                      else if truthy (map_of aff_dict (replace ''#'' [] a))
                      then Some (replace ''#'' [] a)
                      else akey)
         in case akey' of
              None \<Rightarrow> Inl UnboundLocalError
            | Some k \<Rightarrow>
                (case map_of aff_dict k of
                   None \<Rightarrow> Inl KeyError
                 | Some v \<Rightarrow> Inr (akey', affs @ [v], xaffs @ [k]))))"

definition creator_step ::
  "(string \<times> string) list \<Rightarrow> xml \<Rightarrow> string option \<times> jval list
     \<Rightarrow> exn + (string option \<times> jval list)" where
  "creator_step aff_dict c s =
     (case s of (akey, author_list) \<Rightarrow>
        (let t1 = (case find_first ''givenNames'' c of
                     None \<Rightarrow> []
                   | Some g \<Rightarrow> dict_set ''given'' (JStr (get_text g)) []);
             t2 = (case find_first ''familyName'' c of
                     None \<Rightarrow> t1
                   | Some f \<Rightarrow> dict_set ''surname'' (JStr (get_text f)) t1)
         in
         ebind (efold orcid_step (find_all ''id'' c) t2) (\<lambda>t3.
           let t4 = (case find_first ''email'' c of
                       None \<Rightarrow> t3
                     | Some m \<Rightarrow> dict_set ''email'' (JStr (get_text m)) t3)
           in
           if has_attr c ''affiliationRef'' then
             ebind (get_item c ''affiliationRef'') (\<lambda>affs_raw.
             ebind (efold (aff_label_step aff_dict) (split_ws affs_raw) (akey, [], []))
               (\<lambda>(akey', affs, xaffs).
                  Inr (akey',
                       author_list @
                         [JDict (dict_set ''xaff'' (JList (map JStr xaffs))
                                  (dict_set ''aff'' (JList (map JStr affs)) t4))])))
           else Inr (akey, author_list @ [JDict t4]))))"

text \<open>The affiliation table and the author list built from \<^verbatim>\<open>content_meta\<close>.\<close>

definition build_aff_dict :: "xml \<Rightarrow> exn + (string \<times> string) list" where
  "build_aff_dict cm = efold affiliation_step (find_all ''affiliation'' cm) []"

definition build_author_list :: "xml \<Rightarrow> exn + jval list" where
  "build_author_list cm =
     ebind (build_aff_dict cm) (\<lambda>aff_dict.
     ebind (efold (creator_step aff_dict) (find_all ''creator'' cm) (None, [])) (\<lambda>s.
       Inr (snd s)))"

definition WileyParser_parse_authors :: "wiley_state \<Rightarrow> exn + wiley_state" where
  "WileyParser_parse_authors st =
     ebind (deref (content_meta st)) (\<lambda>cm.
     ebind (build_author_list cm) (\<lambda>author_list.
       if author_list \<noteq> []
       then Inr (st\<lparr>base_metadata := dict_set ''authors'' (JList author_list) (base_metadata st)\<rparr>)
       else Inr st))"

subsection \<open>\<^verbatim>\<open>_parse_keywords\<close>, \<^verbatim>\<open>_parse_references\<close>, \<^verbatim>\<open>parse\<close>\<close>

text \<open>The local list \<^verbatim>\<open>keywords\<close> is built and then goes out of scope.\<close>

definition WileyParser_parse_keywords :: "wiley_state \<Rightarrow> exn + wiley_state" where
  "WileyParser_parse_keywords st =
     ebind (deref (content_meta st)) (\<lambda>cm.
       let keywords = map (\<lambda>k. JDict [(''system'', JStr ''Wiley''), (''string'', JStr (get_text k))])
                        (find_all ''keyword'' cm)
       in Inr st)"

text \<open>
  \<^verbatim>\<open>str(ref.extract())\<close> serialises a citation; the serialiser belongs to the
  tree library and is the parameter \<open>to_str\<close>.
\<close>

definition WileyParser_parse_references :: "(xml \<Rightarrow> string) \<Rightarrow> wiley_state \<Rightarrow> exn + wiley_state" where
  "WileyParser_parse_references to_str st =
     (case bib st of
        None \<Rightarrow> Inl AttributeError
      | Some None \<Rightarrow> Inr st
      | Some (Some b) \<Rightarrow>
          (let references =
                 map (\<lambda>ref. replace [CHR 0xA0] '' '' (replace [CHR 0x0A] '' '' (to_str ref)))
                   (find_all ''citation'' b)
           in Inr (st\<lparr>base_metadata :=
                    dict_set ''references'' (JList (map JStr references)) (base_metadata st)\<rparr>)))"

definition level_step :: "xml \<Rightarrow> wiley_state \<Rightarrow> exn + wiley_state" where
  "level_step p st =
     (case get_item p ''level'' of
        Inl e \<Rightarrow> Inl e
      | Inr lv \<Rightarrow>
          if lv = ''product'' then Inr (st\<lparr>pubmeta_prod := Some p\<rparr>)
          else if lv = ''part'' then Inr (st\<lparr>pubmeta_part := Some p\<rparr>)
          else if lv = ''unit'' then Inr (st\<lparr>pubmeta_unit := Some p\<rparr>)
          else Inr st)"

text \<open>The body of \<^verbatim>\<open>parse\<close> after the document has been loaded, up to the call of \<^verbatim>\<open>format\<close>.\<close>

definition WileyParser_parse_tree ::
  "(string \<Rightarrow> string) \<Rightarrow> (xml \<Rightarrow> string) \<Rightarrow> xml \<Rightarrow> wiley_state \<Rightarrow> exn + wiley_state" where
  "WileyParser_parse_tree clean_output to_str d st =
     ebind (efold level_step (find_all ''publicationMeta'' d) st) (\<lambda>st1.
     ebind (WileyParser_parse_ids
              (st1\<lparr>content_meta := find_first ''contentMeta'' d,
                   bib := Some (find_first ''bibliography'' d)\<rparr>)) (\<lambda>st2.
     ebind (WileyParser_parse_pub st2) (\<lambda>st3.
     ebind (WileyParser_parse_page st3) (\<lambda>st4.
     ebind (WileyParser_parse_pubdate st4) (\<lambda>st5.
     ebind (WileyParser_parse_edhistory st5) (\<lambda>st6.
     ebind (WileyParser_parse_title_abstract clean_output st6) (\<lambda>st7.
     ebind (WileyParser_parse_copyright st7) (\<lambda>st8.
     ebind (WileyParser_parse_authors st8) (\<lambda>st9.
     ebind (WileyParser_parse_keywords st9) (\<lambda>st10.
       WileyParser_parse_references to_str st10))))))))))"

text \<open>
  \<^verbatim>\<open>parse\<close>: \<open>bsstrtodict\<close> (the tree loader, \<open>None\<close> when it raises) and
  \<open>format_out\<close> (the inherited \<^verbatim>\<open>format\<close>) are parameters. The result is the
  returned record together with the parser's state.
\<close>

definition WileyParser_parse ::
  "(string \<Rightarrow> xml option) \<Rightarrow> (string \<Rightarrow> string) \<Rightarrow> (xml \<Rightarrow> string) \<Rightarrow> (pydict \<Rightarrow> 'out)
     \<Rightarrow> string \<Rightarrow> wiley_state \<Rightarrow> exn + ('out \<times> wiley_state)" where
  "WileyParser_parse bsstrtodict clean_output to_str format_out txt st =
     (case bsstrtodict txt of
        None \<Rightarrow> Inl XmlLoadException
      | Some d \<Rightarrow>
          ebind (WileyParser_parse_tree clean_output to_str d st) (\<lambda>st'.
            Inr (format_out (base_metadata st'), st')))"

section \<open>ArxivParser\<close>

record arxiv_state =
  ax_base_metadata :: pydict
  input_header :: "xml option"
  input_metadata :: "xml option"

definition ArxivParser_init :: arxiv_state where
  "ArxivParser_init = \<lparr>ax_base_metadata = [], input_header = None, input_metadata = None\<rparr>"

definition DUBCORE_SCHEMA :: "string list" where
  "DUBCORE_SCHEMA = [''http://www.openarchives.org/OAI/2.0/oai_dc/'']"

subsection \<open>\<^verbatim>\<open>_parse_ids\<close>\<close>

text \<open>
  \<^verbatim>\<open>self.base_metadata["ids"]["doi"] = ...\<close>: the lookup of \<^verbatim>\<open>"ids"\<close> raises
  \<^verbatim>\<open>KeyError\<close> when the header had no identifier and nothing stored the key before.
\<close>

definition doi_step :: "xml \<Rightarrow> pydict \<Rightarrow> exn + pydict" where
  "doi_step d bm =
     (let d_text = get_text d in
      if contains ''doi:'' d_text then
        (case dict_get bm ''ids'' of
           None \<Rightarrow> Inl KeyError
         | Some (JDict ids) \<Rightarrow>
             Inr (dict_set ''ids'' (JDict (dict_set ''doi'' (JStr (replace ''doi:'' [] d_text)) ids)) bm)
         | Some other \<Rightarrow> Inl TypeError)
      else Inr bm)"

definition header_ids :: "xml \<Rightarrow> pydict \<Rightarrow> pydict" where
  "header_ids hdr bm =
     (case find_first ''identifier'' hdr of
        None \<Rightarrow> bm
      | Some i \<Rightarrow>
          (let ids = get_text i;
               id_array = split_on CHR '':'' ids;
               arxiv_id = last id_array
           in dict_set ''ids''
                (JDict [(''preprint'', JDict [(''source'', JStr ''arXiv''), (''id'', JStr arxiv_id)])])
                (dict_set ''publication'' (JStr (''eprint arXiv:'' @ arxiv_id)) bm)))"

definition ArxivParser_parse_ids :: "arxiv_state \<Rightarrow> exn + arxiv_state" where
  "ArxivParser_parse_ids st =
     ebind (deref (input_header st)) (\<lambda>hdr.
     ebind (deref (input_metadata st)) (\<lambda>md.
     ebind (efold doi_step (find_all ''dc:identifier'' md) (header_ids hdr (ax_base_metadata st))) (\<lambda>bm.
       Inr (st\<lparr>ax_base_metadata := bm\<rparr>))))"

subsection \<open>\<^verbatim>\<open>_parse_title\<close>, \<^verbatim>\<open>_parse_author\<close>\<close>

definition ArxivParser_parse_title :: "(string \<Rightarrow> string) \<Rightarrow> arxiv_state \<Rightarrow> exn + arxiv_state" where
  "ArxivParser_parse_title clean_output st =
     ebind (deref (input_metadata st)) (\<lambda>md.
       let title_array = find_all ''dc:title'' md in
       if title_array \<noteq> [] then
         (let title_array_text = map get_text title_array in
          if length title_array = 1
          then Inr (st\<lparr>ax_base_metadata :=
                 dict_set ''title'' (JStr (clean_output (title_array_text ! 0))) (ax_base_metadata st)\<rparr>)
          else Inr (st\<lparr>ax_base_metadata :=
                 dict_set ''title'' (JStr (clean_output (join '': '' title_array_text)))
                   (ax_base_metadata st)\<rparr>))
       else Inl MissingTitleException)"

text \<open>
  \<^verbatim>\<open>utils.AuthorNames().parse\<close> with the collaboration parameters is the parameter
  \<open>name_parse\<close>: the list of names one \<^verbatim>\<open>dc:creator\<close> text expands to.
\<close>

definition ArxivParser_parse_author :: "(string \<Rightarrow> jval list) \<Rightarrow> arxiv_state \<Rightarrow> exn + arxiv_state" where
  "ArxivParser_parse_author name_parse st =
     ebind (deref (input_metadata st)) (\<lambda>md.
       let authors_out = concat (map (\<lambda>a. name_parse (get_text a)) (find_all ''dc:creator'' md)) in
       if authors_out = [] then Inl MissingAuthorsException
       else Inr (st\<lparr>ax_base_metadata := dict_set ''authors'' (JList authors_out) (ax_base_metadata st)\<rparr>))"

subsection \<open>\<^verbatim>\<open>_parse_pubdate\<close>, \<^verbatim>\<open>_parse_abstract\<close>, \<^verbatim>\<open>_parse_keywords\<close>\<close>

definition ArxivParser_parse_pubdate :: "arxiv_state \<Rightarrow> exn + arxiv_state" where
  "ArxivParser_parse_pubdate st =
     ebind (deref (input_metadata st)) (\<lambda>md.
       case find_first ''dc:date'' md of
         None \<Rightarrow> Inr st
       | Some n \<Rightarrow>
           Inr (st\<lparr>ax_base_metadata :=
                  dict_set ''pubdate_electronic'' (JStr (get_text n)) (ax_base_metadata st)\<rparr>))"

definition ArxivParser_parse_abstract :: "(string \<Rightarrow> string) \<Rightarrow> arxiv_state \<Rightarrow> exn + arxiv_state" where
  "ArxivParser_parse_abstract clean_output st =
     ebind (deref (input_metadata st)) (\<lambda>md.
       case find_all ''dc:description'' md of
         [] \<Rightarrow> Inr st
       | d0 # desc_array \<Rightarrow>
           (let bm1 = dict_set ''abstract'' (JStr (clean_output (get_text d0))) (ax_base_metadata st) in
            if desc_array \<noteq> [] then
              (let comments_out =
                     map (\<lambda>d. JDict [(''origin'', JStr ''arxiv''),
                                      (''text'', JStr (clean_output (get_text d)))]) desc_array
               in Inr (st\<lparr>ax_base_metadata := dict_set ''comments'' (JList comments_out) bm1\<rparr>))
            else Inr (st\<lparr>ax_base_metadata := bm1\<rparr>)))"

definition ArxivParser_parse_keywords :: "arxiv_state \<Rightarrow> exn + arxiv_state" where
  "ArxivParser_parse_keywords st =
     ebind (deref (input_metadata st)) (\<lambda>md.
       let keywords_array = find_all ''dc:subject'' md in
       if keywords_array \<noteq> [] then
         (let keywords_out =
                map (\<lambda>k. JDict [(''system'', JStr ''arxiv''), (''string'', JStr (get_text k))])
                  keywords_array
          in Inr (st\<lparr>ax_base_metadata := dict_set ''keywords'' (JList keywords_out) (ax_base_metadata st)\<rparr>))
       else Inr st)"

subsection \<open>\<^verbatim>\<open>parse\<close>\<close>

text \<open>The two lookups that set \<^verbatim>\<open>input_header\<close> and \<^verbatim>\<open>input_metadata\<close>.\<close>

definition locate :: "xml \<Rightarrow> arxiv_state \<Rightarrow> arxiv_state" where
  "locate d st =
     (let st1 = (case find_first ''record'' d of
                   None \<Rightarrow> st
                 | Some r \<Rightarrow> st\<lparr>input_header := find_first ''header'' r\<rparr>)
      in case find_first ''record'' d of
           None \<Rightarrow> st1
         | Some r \<Rightarrow>
             (case find_first ''metadata'' r of
                None \<Rightarrow> st1
              | Some m \<Rightarrow> st1\<lparr>input_metadata := find_first ''oai_dc:dc'' m\<rparr>))"

text \<open>
  The field extraction that follows the schema check. \<^verbatim>\<open>_entity_convert\<close> and
  \<^verbatim>\<open>format\<close> are inherited; they are the parameters \<open>entity_convert\<close> and
  \<open>format_out\<close>.
\<close>

definition ArxivParser_extract ::
  "(string \<Rightarrow> string) \<Rightarrow> (string \<Rightarrow> jval list) \<Rightarrow> (pydict \<Rightarrow> pydict) \<Rightarrow> (pydict \<Rightarrow> 'out)
     \<Rightarrow> arxiv_state \<Rightarrow> exn + ('out \<times> arxiv_state)" where
  "ArxivParser_extract clean_output name_parse entity_convert format_out st =
     ebind (ArxivParser_parse_ids st) (\<lambda>st1.
     ebind (ArxivParser_parse_title clean_output st1) (\<lambda>st2.
     ebind (ArxivParser_parse_author name_parse st2) (\<lambda>st3.
     ebind (ArxivParser_parse_pubdate st3) (\<lambda>st4.
     ebind (ArxivParser_parse_abstract clean_output st4) (\<lambda>st5.
     ebind (ArxivParser_parse_keywords st5) (\<lambda>st6.
       let st7 = st6\<lparr>ax_base_metadata := entity_convert (ax_base_metadata st6)\<rparr>
       in Inr (format_out (ax_base_metadata st7), st7)))))))"

definition ArxivParser_parse_tree ::
  "(string \<Rightarrow> string) \<Rightarrow> (string \<Rightarrow> jval list) \<Rightarrow> (pydict \<Rightarrow> pydict) \<Rightarrow> (pydict \<Rightarrow> 'out)
     \<Rightarrow> xml \<Rightarrow> arxiv_state \<Rightarrow> exn + ('out \<times> arxiv_state)" where
  "ArxivParser_parse_tree clean_output name_parse entity_convert format_out d st =
     (let st1 = locate d st in
      ebind (deref (input_metadata st1)) (\<lambda>md.
        let schema_spec = get_default md ''xmlns:oai_dc'' [] in
        if schema_spec = [] then Inl NoSchemaException
        else if schema_spec \<notin> set DUBCORE_SCHEMA then Inl WrongSchemaException
        else ArxivParser_extract clean_output name_parse entity_convert format_out st1))"

definition ArxivParser_parse ::
  "(string \<Rightarrow> xml option) \<Rightarrow> (string \<Rightarrow> string) \<Rightarrow> (string \<Rightarrow> jval list) \<Rightarrow> (pydict \<Rightarrow> pydict)
     \<Rightarrow> (pydict \<Rightarrow> 'out) \<Rightarrow> string \<Rightarrow> arxiv_state \<Rightarrow> exn + ('out \<times> arxiv_state)" where
  "ArxivParser_parse bsstrtodict clean_output name_parse entity_convert format_out txt st =
     (case bsstrtodict txt of
        None \<Rightarrow> Inl XmlLoadException
      | Some d \<Rightarrow> ArxivParser_parse_tree clean_output name_parse entity_convert format_out d st)"

section \<open>MultiArxivParser: the record boundary patterns\<close>

text \<open>
  The fragment of the regular expression language that \<^verbatim>\<open>start_re\<close> and
  \<^verbatim>\<open>end_re\<close> use: a literal, a negative lookahead \<^verbatim>\<open>(?!...)\<close> of a literal and
  a greedy \<^verbatim>\<open>[^c]*\<close>. \<open>re_match\<close> matches a pattern at the start of a string, as
  the backtracking matcher does, and returns what follows the match.
\<close>

datatype re_item =
    Lit string
  | NotAhead string
  | StarNot char

function re_match :: "re_item list \<Rightarrow> string \<Rightarrow> string option" where
  "re_match [] s = Some s"
| "re_match (Lit l # r) s = (if prefix l s then re_match r (drop (length l) s) else None)"
| "re_match (NotAhead l # r) s = (if prefix l s then None else re_match r s)"
| "re_match (StarNot c # r) [] = re_match r []"
| "re_match (StarNot c # r) (x # xs) =
     (if x \<noteq> c then
        (case re_match (StarNot c # r) xs of
           Some rest \<Rightarrow> Some rest
         | None \<Rightarrow> re_match r (x # xs))
      else re_match r (x # xs))"
  by pat_completeness auto
termination
  by (relation "measure (\<lambda>(p, s). length p + length s)") auto

text \<open>\<^verbatim>\<open><record(?!-)[^>]*>\<close> and \<^verbatim>\<open></record(?!-)[^>]*>\<close>.\<close>

definition start_re :: "re_item list" where
  "start_re = [Lit ''<record'', NotAhead ''-'', StarNot CHR ''>'', Lit ''>'']"

definition end_re :: "re_item list" where
  "end_re = [Lit ''</record'', NotAhead ''-'', StarNot CHR ''>'', Lit ''>'']"

text \<open>\<^verbatim>\<open>re.search\<close>: whether the pattern matches at some position of the text.\<close>

fun re_search :: "re_item list \<Rightarrow> string \<Rightarrow> bool" where
  "re_search p [] = (re_match p [] \<noteq> None)"
| "re_search p (x # xs) = (re_match p (x # xs) \<noteq> None \<or> re_search p xs)"

section \<open>Notions used to state the properties\<close>

text \<open>An event node of a given type, the last such node of a list, and well-formed event nodes.\<close>

definition is_type :: "string \<Rightarrow> xml \<Rightarrow> bool" where
  "is_type ty d = (get_item d ''type'' = Inr ty)"

definition last_of_type :: "string \<Rightarrow> xml list \<Rightarrow> xml option" where
  "last_of_type ty evs =
     (case filter (is_type ty) evs of [] \<Rightarrow> None | x # xs \<Rightarrow> Some (last (x # xs)))"

definition events_wf :: "xml list \<Rightarrow> bool" where
  "events_wf evs = list_all (\<lambda>d. has_attr d ''type'' \<and> has_attr d ''date'') evs"

text \<open>The last \<^verbatim>\<open>dc:identifier\<close> node whose text contains \<^verbatim>\<open>doi:\<close>.\<close>

definition last_doi_node :: "xml list \<Rightarrow> xml option" where
  "last_doi_node ds =
     (case filter (\<lambda>d. contains ''doi:'' (get_text d)) ds of
        [] \<Rightarrow> None
      | x # xs \<Rightarrow> Some (last (x # xs)))"

text \<open>
  An author entry is a dictionary that carries neither \<^verbatim>\<open>aff\<close> nor \<^verbatim>\<open>xaff\<close>, or
  carries both as lists of the same length.
\<close>

fun aff_xaff_same_length :: "jval \<Rightarrow> bool" where
  "aff_xaff_same_length (JDict d) =
     (case (dict_get d ''aff'', dict_get d ''xaff'') of
        (None, None) \<Rightarrow> True
      | (Some (JList affs), Some (JList xaffs)) \<Rightarrow> length affs = length xaffs
      | other \<Rightarrow> False)"
| "aff_xaff_same_length (JStr s) = False"
| "aff_xaff_same_length (JList l) = False"
| "aff_xaff_same_length (JTuple l) = False"

section \<open>Example documents\<close>

text \<open>A Wiley unit whose events come in the order accepted, final form, first online, final form, first online.\<close>

definition ex_unit :: xml where
  "ex_unit = Elem ''publicationMeta'' [(''level'', ''unit'')]
     [Elem ''eventGroup'' []
        [Elem ''event'' [(''type'', ''publishedOnlineAccepted''), (''date'', ''2019-12-01'')] [],
         Elem ''event'' [(''type'', ''publishedOnlineFinalForm''), (''date'', ''2020-02-01'')] [],
         Elem ''event'' [(''type'', ''firstOnline''), (''date'', ''2020-01-15'')] [],
         Elem ''event'' [(''type'', ''publishedOnlineFinalForm''), (''date'', ''2020-03-01'')] [],
         Elem ''event'' [(''type'', ''firstOnline''), (''date'', ''2020-04-20'')] []]]"

definition ex_part :: xml where
  "ex_part = Elem ''publicationMeta'' [(''level'', ''part'')]
     [Elem ''coverDate'' [(''startDate'', ''2020-05'')] []]"

definition ex_wiley :: wiley_state where
  "ex_wiley = WileyParser_init\<lparr>pubmeta_part := Some ex_part, pubmeta_unit := Some ex_unit\<rparr>"

text \<open>A unit with no first-online event: accepted, final form, accepted, final form, accepted.\<close>

definition ex_unit_later :: xml where
  "ex_unit_later = Elem ''publicationMeta'' [(''level'', ''unit'')]
     [Elem ''event'' [(''type'', ''publishedOnlineAccepted''), (''date'', ''2019-12-01'')] [],
      Elem ''event'' [(''type'', ''publishedOnlineFinalForm''), (''date'', ''2020-02-01'')] [],
      Elem ''event'' [(''type'', ''publishedOnlineAccepted''), (''date'', ''2020-02-10'')] [],
      Elem ''event'' [(''type'', ''publishedOnlineFinalForm''), (''date'', ''2020-03-01'')] [],
      Elem ''event'' [(''type'', ''publishedOnlineAccepted''), (''date'', ''2020-03-05'')] []]"

definition ex_wiley_later :: wiley_state where
  "ex_wiley_later = WileyParser_init\<lparr>pubmeta_part := Some ex_part, pubmeta_unit := Some ex_unit_later\<rparr>"

text \<open>A unit with two first-online events and nothing else.\<close>

definition ex_unit_twice :: xml where
  "ex_unit_twice = Elem ''publicationMeta'' [(''level'', ''unit'')]
     [Elem ''event'' [(''type'', ''firstOnline''), (''date'', ''2021-01-01'')] [],
      Elem ''event'' [(''type'', ''firstOnline''), (''date'', ''2021-06-30'')] []]"

definition ex_wiley_twice :: wiley_state where
  "ex_wiley_twice = WileyParser_init\<lparr>pubmeta_part := Some ex_part, pubmeta_unit := Some ex_unit_twice\<rparr>"

text \<open>
  An arXiv record with the given header identifier text, the given attributes on
  \<^verbatim>\<open>oai_dc:dc\<close> and the given Dublin Core children.
\<close>

definition ex_record :: "string \<Rightarrow> (string \<times> string) list \<Rightarrow> xml list \<Rightarrow> xml" where
  "ex_record ident attrs dc =
     Elem ''[document]'' []
       [Elem ''record'' []
          [Elem ''header'' [] [Elem ''identifier'' [] [Text ident]],
           Elem ''metadata'' [] [Elem ''oai_dc:dc'' attrs dc]]]"

text \<open>The same record with the attributes on \<^verbatim>\<open>record\<close>, an ancestor of \<^verbatim>\<open>oai_dc:dc\<close>.\<close>

definition ex_record_outer :: "string \<Rightarrow> (string \<times> string) list \<Rightarrow> xml list \<Rightarrow> xml" where
  "ex_record_outer ident attrs dc =
     Elem ''[document]'' []
       [Elem ''record'' attrs
          [Elem ''header'' [] [Elem ''identifier'' [] [Text ident]],
           Elem ''metadata'' [] [Elem ''oai_dc:dc'' [] dc]]]"

text \<open>A record whose metadata is in the arXivRaw schema: there is no \<^verbatim>\<open>oai_dc:dc\<close> node.\<close>

definition ex_record_raw :: xml where
  "ex_record_raw =
     Elem ''[document]'' []
       [Elem ''record'' []
          [Elem ''header'' [] [Elem ''identifier'' [] [Text ''oai:arXiv.org:1234.5678'']],
           Elem ''metadata'' []
             [Elem ''arXivRaw'' [(''xmlns'', ''http://arxiv.org/OAI/arXivRaw/'')]
                [Elem ''id'' [] [Text ''1234.5678''],
                 Elem ''title'' [] [Text ''Dark matter''],
                 Elem ''authors'' [] [Text ''J. Doe'']]]]]"

text \<open>A deleted record, which has a header and no metadata, and an error response, which has no record.\<close>

definition ex_record_deleted :: xml where
  "ex_record_deleted =
     Elem ''[document]'' []
       [Elem ''record'' []
          [Elem ''header'' [(''status'', ''deleted'')]
             [Elem ''identifier'' [] [Text ''oai:arXiv.org:1234.5678'']]]]"

definition ex_error_response :: xml where
  "ex_error_response =
     Elem ''[document]'' []
       [Elem ''OAI-PMH'' []
          [Elem ''error'' [(''code'', ''idDoesNotExist'')] [Text ''No matching identifier'']]]"

definition ex_schema :: "(string \<times> string) list" where
  "ex_schema = [(''xmlns:oai_dc'', ''http://www.openarchives.org/OAI/2.0/oai_dc/'')]"

definition ex_dc :: "xml list" where
  "ex_dc =
     [Elem ''dc:title'' [] [Text ''Dark matter''],
      Elem ''dc:title'' [] [Text ''a review''],
      Elem ''dc:creator'' [] [Text ''Doe, J.''],
      Elem ''dc:identifier'' [] [Text ''http://arxiv.org/abs/1234.5678''],
      Elem ''dc:identifier'' [] [Text ''doi:10.1000/xyz'']]"

text \<open>Stand-ins for the inherited helpers: a loader that knows one document per name, and a name parser that keeps the text as one name.\<close>

definition ex_loader :: "string \<Rightarrow> xml option" where
  "ex_loader txt =
     (if txt = ''good'' then Some (ex_record ''oai:arXiv.org:1234.5678'' ex_schema ex_dc)
      else if txt = ''no-schema'' then Some (ex_record_outer ''oai:arXiv.org:1234.5678'' ex_schema ex_dc)
      else if txt = ''raw'' then Some ex_record_raw
      else if txt = ''deleted'' then Some ex_record_deleted
      else if txt = ''error'' then Some ex_error_response
      else if txt = ''wrong-schema''
      then Some (ex_record ''oai:arXiv.org:1234.5678'' [(''xmlns:oai_dc'', ''http://example.org/other/'')] ex_dc)
      else if txt = ''no-authors''
      then Some (ex_record ''oai:arXiv.org:1234.5678'' ex_schema [Elem ''dc:title'' [] [Text ''Dark matter'']])
      else if txt = ''scenario''
      then Some (ex_record ''1234:doi:xyz'' ex_schema
                   [Elem ''dc:title'' [] [Text ''Dark matter''],
                    Elem ''dc:creator'' [] [Text ''Doe, J.''],
                    Elem ''dc:identifier'' [] [Text ''doi:xyz'']])
      else None)"

definition ex_name_parse :: "string \<Rightarrow> jval list" where
  "ex_name_parse a = [JStr a]"

definition ex_arxiv :: "string \<Rightarrow> arxiv_state" where
  "ex_arxiv txt = locate (the (ex_loader txt)) ArxivParser_init"

text \<open>The parser after it has parsed the document \<^verbatim>\<open>good\<close>.\<close>

definition ex_arxiv_reused :: arxiv_state where
  "ex_arxiv_reused =
     (case ArxivParser_parse ex_loader id ex_name_parse id id ''good'' ArxivParser_init of
        Inl e \<Rightarrow> ArxivParser_init
      | Inr r \<Rightarrow> snd r)"

text \<open>
  A Wiley document with product, part and unit metadata and the given children of
  \<^verbatim>\<open>contentMeta\<close>.
\<close>

definition ex_wiley_doc :: "xml list \<Rightarrow> xml" where
  "ex_wiley_doc content =
     Elem ''[document]'' []
       [Elem ''component'' []
          [Elem ''header'' []
             [Elem ''publicationMeta'' [(''level'', ''product'')]
                [Elem ''issn'' [(''type'', ''print'')] [Text ''0004-637X''],
                 Elem ''titleGroup'' [] [Elem ''title'' [(''type'', ''main'')] [Text ''Journal of Examples'']]],
              Elem ''publicationMeta'' [(''level'', ''part'')]
                [Elem ''numbering'' [(''type'', ''journalVolume'')] [Text ''12''],
                 Elem ''coverDate'' [(''startDate'', ''2020-05'')] []],
              Elem ''publicationMeta'' [(''level'', ''unit'')]
                [Elem ''doi'' [] [Text ''10.1000/abc''],
                 Elem ''numbering'' [(''type'', ''pageFirst'')] [Text ''101''],
                 Elem ''event'' [(''type'', ''firstOnline''), (''date'', ''2020-01-15'')] []],
              Elem ''contentMeta'' [] content]]]"

definition ex_title :: xml where
  "ex_title = Elem ''titleGroup'' [] [Elem ''title'' [(''type'', ''main'')] [Text ''A paper'']]"

definition ex_keywords :: xml where
  "ex_keywords = Elem ''keywordGroup'' []
     [Elem ''keyword'' [] [Text ''stars''], Elem ''keyword'' [] [Text ''galaxies'']]"

definition ex_affiliations :: xml where
  "ex_affiliations = Elem ''affiliationGroup'' []
     [Elem ''affiliation'' [(''xml:id'', ''a1'')] [Elem ''orgName'' [] [Text '' Univ A '']],
      Elem ''affiliation'' [(''xml:id'', ''a2'')] [Elem ''orgName'' [] [Text ''Univ B''], Elem ''country'' [] [Text ''NL'']]]"

text \<open>A creator with the given \<^verbatim>\<open>affiliationRef\<close> (none when empty) and family name.\<close>

definition ex_creator :: "string \<Rightarrow> string \<Rightarrow> xml" where
  "ex_creator ref name =
     Elem ''creator'' (if ref = [] then [] else [(''affiliationRef'', ref)])
       [Elem ''personName'' [] [Elem ''givenNames'' [] [Text ''J.''], Elem ''familyName'' [] [Text name]]]"

definition ex_wiley_loader :: "string \<Rightarrow> xml option" where
  "ex_wiley_loader txt =
     (if txt = ''no-creator'' then Some (ex_wiley_doc [ex_title, ex_keywords])
      else if txt = ''resolved''
      then Some (ex_wiley_doc
                   [ex_title, ex_affiliations,
                    Elem ''creators'' [] [ex_creator ''#a1 #a2'' ''Doe'', ex_creator [] ''Roe''],
                    ex_keywords])
      else if txt = ''stale''
      then Some (ex_wiley_doc
                   [ex_title, ex_affiliations,
                    Elem ''creators'' [] [ex_creator ''#a1 #zz'' ''Doe'', ex_creator ''#a2'' ''Roe'']])
      else if txt = ''unbound''
      then Some (ex_wiley_doc
                   [ex_title, ex_affiliations,
                    Elem ''creators'' [] [ex_creator ''#zz'' ''Doe'', ex_creator ''#a2'' ''Roe'']])
      else None)"

text \<open>The content of one of these documents, as \<^verbatim>\<open>parse\<close> stores it.\<close>

definition ex_content :: "string \<Rightarrow> xml" where
  "ex_content txt = the (find_first ''contentMeta'' (the (ex_wiley_loader txt)))"

definition ex_wiley_content :: "string \<Rightarrow> wiley_state" where
  "ex_wiley_content txt = WileyParser_init\<lparr>content_meta := Some (ex_content txt)\<rparr>"

section \<open>Basic facts about dictionaries, attributes and loops\<close>

lemma dict_get_set [simp]:
  "dict_get (dict_set k v d) k' = (if k' = k then Some v else dict_get d k')"
  by (simp add: dict_get_def dict_set_def update_conv')

lemma dict_keys_set [simp]: "dict_keys (dict_set k v d) = insert k (dict_keys d)"
  by (simp add: dict_keys_def dict_set_def dom_update)

lemma has_attr_get_item: "has_attr d a \<Longrightarrow> get_item d a = Inr (get_default d a dflt)"
  by (auto simp: has_attr_def get_item_def get_default_def split: option.splits)

lemma ebind_Inr_iff: "ebind m f = Inr y \<longleftrightarrow> (\<exists>x. m = Inr x \<and> f x = Inr y)"
  by (cases m) (simp_all add: ebind_def)

lemma ebind_Inr [simp]: "ebind (Inr x) f = f x"
  by (simp add: ebind_def)

lemma ebind_Inl [simp]: "ebind (Inl e) f = Inl e"
  by (simp add: ebind_def)

lemma deref_Some [simp]: "deref (Some x) = Inr x"
  by (simp add: deref_def)

lemma deref_None [simp]: "deref None = Inl AttributeError"
  by (simp add: deref_def)

section \<open>The publication date of a Wiley record\<close>

lemma last_of_type_Nil [simp]: "last_of_type ty [] = None"
  by (simp add: last_of_type_def)

lemma last_of_type_Cons [simp]:
  "last_of_type ty (d # ds) =
     (case last_of_type ty ds of Some e \<Rightarrow> Some e | None \<Rightarrow> if is_type ty d then Some d else None)"
  by (auto simp: last_of_type_def split: list.splits)

text \<open>The print half leaves the unit and every key but \<^verbatim>\<open>pubdate_print\<close> alone.\<close>

lemma pubdate_print_frame:
  assumes "pubdate_print st = Inr st1"
  shows "pubmeta_unit st1 = pubmeta_unit st"
    and "dict_get (base_metadata st1) ''pubdate_electronic'' = dict_get (base_metadata st) ''pubdate_electronic''"
  using assms
  by (auto simp: pubdate_print_def Let_def split: option.splits sum.splits)

text \<open>With a first-online node in the list, the loop stops at the first one and stores its date.\<close>

lemma pubdate_events_first:
  assumes "events_wf evs"
    and "List.find (is_type ''firstOnline'') evs = Some e"
  shows "\<exists>bm'. pubdate_events evs found bm = Inr bm'
           \<and> dict_get bm' ''pubdate_electronic'' = Some (JStr (get_default e ''date'' []))"
  using assms
proof (induction evs arbitrary: found bm)
  case Nil
  then show ?case by simp
next
  case (Cons d ds)
  from Cons.prems(1) have ty: "get_item d ''type'' = Inr (get_default d ''type'' [])"
    and dt: "get_item d ''date'' = Inr (get_default d ''date'' [])"
    by (simp_all add: events_wf_def has_attr_get_item)
  from Cons.prems(1) have wf: "events_wf ds" by (simp add: events_wf_def)
  show ?case
  proof (cases "is_type ''firstOnline'' d")
    case True
    with Cons.prems(2) have "e = d" by simp
    with True dt show ?thesis by (simp add: is_type_def)
  next
    case False
    with Cons.prems(2) have f: "List.find (is_type ''firstOnline'') ds = Some e" by simp
    from Cons.IH[OF wf f] False ty dt show ?thesis by (simp add: is_type_def)
  qed
qed

text \<open>
  Without a first-online node the loop runs to the end: the last final-form node wins;
  failing that, and unless \<^verbatim>\<open>found\<close> was already set, the last accepted node.
\<close>

lemma pubdate_events_later:
  assumes "events_wf evs"
    and "List.find (is_type ''firstOnline'') evs = None"
  shows "\<exists>bm'. pubdate_events evs found bm = Inr bm'
           \<and> dict_get bm' ''pubdate_electronic'' =
               (case last_of_type ''publishedOnlineFinalForm'' evs of
                  Some e \<Rightarrow> Some (JStr (get_default e ''date'' []))
                | None \<Rightarrow>
                    if found then dict_get bm ''pubdate_electronic''
                    else (case last_of_type ''publishedOnlineAccepted'' evs of
                            Some e \<Rightarrow> Some (JStr (get_default e ''date'' []))
                          | None \<Rightarrow> dict_get bm ''pubdate_electronic''))"
  using assms
proof (induction evs arbitrary: found bm)
  case Nil
  then show ?case by simp
next
  case (Cons d ds)
  from Cons.prems(1) have ty: "get_item d ''type'' = Inr (get_default d ''type'' [])"
    and dt: "get_item d ''date'' = Inr (get_default d ''date'' [])"
    by (simp_all add: events_wf_def has_attr_get_item)
  from Cons.prems(1) have wf: "events_wf ds" by (simp add: events_wf_def)
  from Cons.prems(2) have notA: "\<not> is_type ''firstOnline'' d"
    and f: "List.find (is_type ''firstOnline'') ds = None"
    by (simp_all split: if_splits)
  note IH = Cons.IH[OF wf f]
  show ?case
  proof (cases "get_default d ''type'' [] = ''publishedOnlineFinalForm''")
    case True
    with IH[of True "dict_set ''pubdate_electronic'' (JStr (get_default d ''date'' [])) bm"] ty dt
    show ?thesis by (auto simp: is_type_def split: option.splits)
  next
    case notB: False
    show ?thesis
    proof (cases "get_default d ''type'' [] = ''publishedOnlineAccepted'' \<and> \<not> found")
      case True
      with IH[of False "dict_set ''pubdate_electronic'' (JStr (get_default d ''date'' [])) bm"] ty dt
      show ?thesis by (auto simp: is_type_def split: option.splits)
    next
      case False
      with IH[of found bm] notB notA ty dt
      show ?thesis by (auto simp: is_type_def split: option.splits)
    qed
  qed
qed

lemma parse_pubdate_unfold:
  assumes "pubdate_print st = Inr st1" and "pubmeta_unit st = Some unit"
  shows "WileyParser_parse_pubdate st =
           (case pubdate_events (find_all ''event'' unit) False (base_metadata st1) of
              Inl e \<Rightarrow> Inl e
            | Inr bm \<Rightarrow> Inr (st1\<lparr>base_metadata := bm\<rparr>))"
  using assms pubdate_print_frame(1)[OF assms(1)]
  by (simp add: WileyParser_parse_pubdate_def)

text \<open>
  C1. When the unit holds an event node of type \<^verbatim>\<open>firstOnline\<close>, and the
  print-date half raises nothing and every event node carries its \<^verbatim>\<open>type\<close> and
  \<^verbatim>\<open>date\<close> attributes, \<^verbatim>\<open>_parse_pubdate\<close> returns and
  \<^verbatim>\<open>pubdate_electronic\<close> is the date of a \<^verbatim>\<open>firstOnline\<close> node (the first in
  document order), whatever final-form or accepted nodes stand before or after it.
\<close>

theorem wiley_pubdate_first_online_wins:
  assumes "pubdate_print st = Inr st1"
    and "pubmeta_unit st = Some unit"
    and "events_wf (find_all ''event'' unit)"
    and "\<exists>d\<in>set (find_all ''event'' unit). is_type ''firstOnline'' d"
  shows "\<exists>st' e dt. WileyParser_parse_pubdate st = Inr st'
           \<and> List.find (is_type ''firstOnline'') (find_all ''event'' unit) = Some e
           \<and> is_type ''firstOnline'' e
           \<and> get_item e ''date'' = Inr dt
           \<and> dict_get (base_metadata st') ''pubdate_electronic'' = Some (JStr dt)"
proof -
  let ?evs = "find_all ''event'' unit"
  from assms(4) obtain e where e: "List.find (is_type ''firstOnline'') ?evs = Some e"
    by (cases "List.find (is_type ''firstOnline'') ?evs") (auto simp: find_None_iff)
  then have mem: "e \<in> set ?evs" and isA: "is_type ''firstOnline'' e"
    by (auto simp: find_Some_iff)
  from assms(3) mem have "has_attr e ''date''"
    by (simp add: events_wf_def list_all_iff)
  then have dt: "get_item e ''date'' = Inr (get_default e ''date'' [])"
    by (rule has_attr_get_item)
  from pubdate_events_first[OF assms(3) e, of False "base_metadata st1"]
  obtain bm' where bm': "pubdate_events ?evs False (base_metadata st1) = Inr bm'"
    and v: "dict_get bm' ''pubdate_electronic'' = Some (JStr (get_default e ''date'' []))"
    by blast
  from bm' have "WileyParser_parse_pubdate st = Inr (st1\<lparr>base_metadata := bm'\<rparr>)"
    by (simp add: parse_pubdate_unfold[OF assms(1,2)])
  with e isA dt v show ?thesis by simp
qed

theorem wiley_pubdate_first_online_wins_witness:
  "pubdate_print ex_wiley = Inr (ex_wiley\<lparr>base_metadata := [(''pubdate_print'', JStr ''2020-05-00'')]\<rparr>)
   \<and> pubmeta_unit ex_wiley = Some ex_unit
   \<and> events_wf (find_all ''event'' ex_unit)
   \<and> (\<exists>d\<in>set (find_all ''event'' ex_unit). is_type ''firstOnline'' d)
   \<and> (\<exists>st'. WileyParser_parse_pubdate ex_wiley = Inr st'
         \<and> dict_get (base_metadata st') ''pubdate_electronic'' = Some (JStr ''2020-01-15''))"
proof -
  have h1: "pubdate_print ex_wiley = Inr (ex_wiley\<lparr>base_metadata := [(''pubdate_print'', JStr ''2020-05-00'')]\<rparr>)"
    by code_simp
  have h2: "pubmeta_unit ex_wiley = Some ex_unit"
    by (simp add: ex_wiley_def)
  have h3: "events_wf (find_all ''event'' ex_unit)"
    by code_simp
  have f: "List.find (is_type ''firstOnline'') (find_all ''event'' ex_unit)
             = Some (Elem ''event'' [(''type'', ''firstOnline''), (''date'', ''2020-01-15'')] [])"
    by code_simp
  then have h4: "\<exists>d\<in>set (find_all ''event'' ex_unit). is_type ''firstOnline'' d"
    by (auto simp: find_Some_iff)
  from wiley_pubdate_first_online_wins[OF h1 h2 h3 h4] f
  have "\<exists>st'. WileyParser_parse_pubdate ex_wiley = Inr st'
         \<and> dict_get (base_metadata st') ''pubdate_electronic'' = Some (JStr ''2020-01-15'')"
    by (auto simp: get_item_def)
  with h1 h2 h3 h4 show ?thesis by blast
qed

text \<open>
  C6, as the code has it. Under the same conditions \<^verbatim>\<open>_parse_pubdate\<close> returns, and
  \<^verbatim>\<open>pubdate_electronic\<close> is: the date of the first \<^verbatim>\<open>firstOnline\<close> node when
  there is one (the loop ends there); otherwise the date of the last
  \<^verbatim>\<open>publishedOnlineFinalForm\<close> node when there is one; otherwise the date of the
  last \<^verbatim>\<open>publishedOnlineAccepted\<close> node when there is one; otherwise what it was.
\<close>

theorem wiley_pubdate_tiers:
  assumes "pubdate_print st = Inr st1"
    and "pubmeta_unit st = Some unit"
    and "events_wf (find_all ''event'' unit)"
  shows "\<exists>st'. WileyParser_parse_pubdate st = Inr st'
           \<and> dict_get (base_metadata st') ''pubdate_electronic'' =
               (case List.find (is_type ''firstOnline'') (find_all ''event'' unit) of
                  Some e \<Rightarrow> Some (JStr (get_default e ''date'' []))
                | None \<Rightarrow>
                    (case last_of_type ''publishedOnlineFinalForm'' (find_all ''event'' unit) of
                       Some e \<Rightarrow> Some (JStr (get_default e ''date'' []))
                     | None \<Rightarrow>
                         (case last_of_type ''publishedOnlineAccepted'' (find_all ''event'' unit) of
                            Some e \<Rightarrow> Some (JStr (get_default e ''date'' []))
                          | None \<Rightarrow> dict_get (base_metadata st) ''pubdate_electronic'')))"
proof (cases "List.find (is_type ''firstOnline'') (find_all ''event'' unit)")
  case None
  from pubdate_events_later[OF assms(3) None, of False "base_metadata st1"]
  obtain bm' where bm': "pubdate_events (find_all ''event'' unit) False (base_metadata st1) = Inr bm'"
    and v: "dict_get bm' ''pubdate_electronic'' =
               (case last_of_type ''publishedOnlineFinalForm'' (find_all ''event'' unit) of
                  Some e \<Rightarrow> Some (JStr (get_default e ''date'' []))
                | None \<Rightarrow>
                    (case last_of_type ''publishedOnlineAccepted'' (find_all ''event'' unit) of
                       Some e \<Rightarrow> Some (JStr (get_default e ''date'' []))
                     | None \<Rightarrow> dict_get (base_metadata st1) ''pubdate_electronic''))"
    by auto
  from bm' have "WileyParser_parse_pubdate st = Inr (st1\<lparr>base_metadata := bm'\<rparr>)"
    by (simp add: parse_pubdate_unfold[OF assms(1,2)])
  with v None pubdate_print_frame(2)[OF assms(1)] show ?thesis
    by (simp split: option.splits)
next
  case (Some e)
  from pubdate_events_first[OF assms(3) Some, of False "base_metadata st1"]
  obtain bm' where bm': "pubdate_events (find_all ''event'' unit) False (base_metadata st1) = Inr bm'"
    and v: "dict_get bm' ''pubdate_electronic'' = Some (JStr (get_default e ''date'' []))"
    by blast
  from bm' have "WileyParser_parse_pubdate st = Inr (st1\<lparr>base_metadata := bm'\<rparr>)"
    by (simp add: parse_pubdate_unfold[OF assms(1,2)])
  with v Some show ?thesis by simp
qed

theorem wiley_pubdate_tiers_witness:
  "pubdate_print ex_wiley_later =
      Inr (ex_wiley_later\<lparr>base_metadata := [(''pubdate_print'', JStr ''2020-05-00'')]\<rparr>)
   \<and> pubmeta_unit ex_wiley_later = Some ex_unit_later
   \<and> events_wf (find_all ''event'' ex_unit_later)
   \<and> (\<exists>st'. WileyParser_parse_pubdate ex_wiley_later = Inr st'
         \<and> dict_get (base_metadata st') ''pubdate_electronic'' = Some (JStr ''2020-03-01''))"
proof -
  have h1: "pubdate_print ex_wiley_later =
      Inr (ex_wiley_later\<lparr>base_metadata := [(''pubdate_print'', JStr ''2020-05-00'')]\<rparr>)"
    by code_simp
  have h2: "pubmeta_unit ex_wiley_later = Some ex_unit_later"
    by (simp add: ex_wiley_later_def)
  have h3: "events_wf (find_all ''event'' ex_unit_later)"
    by code_simp
  have f: "List.find (is_type ''firstOnline'') (find_all ''event'' ex_unit_later) = None"
    by code_simp
  have l: "last_of_type ''publishedOnlineFinalForm'' (find_all ''event'' ex_unit_later)
             = Some (Elem ''event'' [(''type'', ''publishedOnlineFinalForm''), (''date'', ''2020-03-01'')] [])"
    by code_simp
  from wiley_pubdate_tiers[OF h1 h2 h3]
  have "\<exists>st'. WileyParser_parse_pubdate ex_wiley_later = Inr st'
         \<and> dict_get (base_metadata st') ''pubdate_electronic'' = Some (JStr ''2020-03-01'')"
    unfolding f l by (simp add: get_default_def)
  with h1 h2 h3 show ?thesis by blast
qed

text \<open>
  Two \<^verbatim>\<open>firstOnline\<close> nodes, dated 2021-01-01 and 2021-06-30 in this order: the
  stored date is that of the first node, not of the last.
\<close>

theorem wiley_pubdate_last_wins_counterexample:
  "WileyParser_parse_pubdate ex_wiley_twice =
     Inr (ex_wiley_twice\<lparr>base_metadata :=
            [(''pubdate_print'', JStr ''2020-05-00''), (''pubdate_electronic'', JStr ''2021-01-01'')]\<rparr>)
   \<and> last_of_type ''firstOnline'' (find_all ''event'' ex_unit_twice)
       = Some (Elem ''event'' [(''type'', ''firstOnline''), (''date'', ''2021-06-30'')] [])"
  by code_simp

section \<open>The arXiv parser: schema check, title, authors, identifiers\<close>

text \<open>
  What the schema check does when the lookups leave a metadata root in
  \<^verbatim>\<open>input_metadata\<close>: \<^verbatim>\<open>NoSchemaException\<close> when the root has no
  \<^verbatim>\<open>xmlns:oai_dc\<close> attribute or an empty one, \<^verbatim>\<open>WrongSchemaException\<close> when
  the attribute is present and not in \<^verbatim>\<open>DUBCORE_SCHEMA\<close>, and the field
  extraction exactly when the attribute is a supported schema value.
\<close>

lemma arxiv_schema_check_with_root:
  assumes "bsstrtodict doc = Some d"
    and "input_metadata (locate d st) = Some md"
  shows "(\<not> has_attr md ''xmlns:oai_dc'' \<or> get_item md ''xmlns:oai_dc'' = Inr []
            \<longrightarrow> ArxivParser_parse bsstrtodict clean_output name_parse entity_convert format_out doc st
                  = Inl NoSchemaException)
       \<and> (\<forall>v. get_item md ''xmlns:oai_dc'' = Inr v \<and> v \<noteq> [] \<and> v \<notin> set DUBCORE_SCHEMA
            \<longrightarrow> ArxivParser_parse bsstrtodict clean_output name_parse entity_convert format_out doc st
                  = Inl WrongSchemaException)
       \<and> (\<forall>v. get_item md ''xmlns:oai_dc'' = Inr v \<and> v \<in> set DUBCORE_SCHEMA
            \<longrightarrow> ArxivParser_parse bsstrtodict clean_output name_parse entity_convert format_out doc st
                  = ArxivParser_extract clean_output name_parse entity_convert format_out (locate d st))"
  using assms
  by (auto simp: ArxivParser_parse_def ArxivParser_parse_tree_def Let_def has_attr_def
        get_item_def get_default_def DUBCORE_SCHEMA_def split: option.splits)

text \<open>
  The three outcomes on documents with a root: the namespace declared on an ancestor of
  \<^verbatim>\<open>oai_dc:dc\<close> (so that the node itself carries no such attribute), another
  namespace, and the supported one.
\<close>

lemma arxiv_schema_check_examples:
  "ArxivParser_parse ex_loader id ex_name_parse id id ''no-schema'' ArxivParser_init
     = Inl NoSchemaException
   \<and> ArxivParser_parse ex_loader id ex_name_parse id id ''wrong-schema'' ArxivParser_init
     = Inl WrongSchemaException
   \<and> ArxivParser_parse ex_loader id ex_name_parse id id ''good'' ArxivParser_init
     = ArxivParser_extract id ex_name_parse id id (ex_arxiv ''good'')"
proof -
  have l1: "ex_loader ''no-schema'' = Some (ex_record_outer ''oai:arXiv.org:1234.5678'' ex_schema ex_dc)"
    by (simp add: ex_loader_def)
  have m1: "input_metadata (locate (ex_record_outer ''oai:arXiv.org:1234.5678'' ex_schema ex_dc) ArxivParser_init)
              = Some (Elem ''oai_dc:dc'' [] ex_dc)"
    by code_simp
  have a1: "\<not> has_attr (Elem ''oai_dc:dc'' [] ex_dc) ''xmlns:oai_dc''"
    by (simp add: has_attr_def)
  have l2: "ex_loader ''wrong-schema''
              = Some (ex_record ''oai:arXiv.org:1234.5678'' [(''xmlns:oai_dc'', ''http://example.org/other/'')] ex_dc)"
    by (simp add: ex_loader_def)
  have m2: "input_metadata (locate (ex_record ''oai:arXiv.org:1234.5678''
                [(''xmlns:oai_dc'', ''http://example.org/other/'')] ex_dc) ArxivParser_init)
              = Some (Elem ''oai_dc:dc'' [(''xmlns:oai_dc'', ''http://example.org/other/'')] ex_dc)"
    by code_simp
  have a2: "get_item (Elem ''oai_dc:dc'' [(''xmlns:oai_dc'', ''http://example.org/other/'')] ex_dc) ''xmlns:oai_dc''
              = Inr ''http://example.org/other/''
            \<and> ''http://example.org/other/'' \<noteq> []
            \<and> ''http://example.org/other/'' \<notin> set DUBCORE_SCHEMA"
    by (simp add: get_item_def DUBCORE_SCHEMA_def)
  have l3: "ex_loader ''good'' = Some (ex_record ''oai:arXiv.org:1234.5678'' ex_schema ex_dc)"
    by (simp add: ex_loader_def)
  have m3: "input_metadata (locate (ex_record ''oai:arXiv.org:1234.5678'' ex_schema ex_dc) ArxivParser_init)
              = Some (Elem ''oai_dc:dc'' ex_schema ex_dc)"
    by code_simp
  have a3: "get_item (Elem ''oai_dc:dc'' ex_schema ex_dc) ''xmlns:oai_dc''
              = Inr ''http://www.openarchives.org/OAI/2.0/oai_dc/''
            \<and> ''http://www.openarchives.org/OAI/2.0/oai_dc/'' \<in> set DUBCORE_SCHEMA"
    by (simp add: get_item_def DUBCORE_SCHEMA_def ex_schema_def)
  have e3: "ex_arxiv ''good'' = locate (ex_record ''oai:arXiv.org:1234.5678'' ex_schema ex_dc) ArxivParser_init"
    by (simp add: ex_arxiv_def l3)
  from arxiv_schema_check_with_root[where bsstrtodict = ex_loader and doc = "''no-schema''" and clean_output = id
      and name_parse = ex_name_parse and entity_convert = id and format_out = id, OF l1 m1] a1
  have r1: "ArxivParser_parse ex_loader id ex_name_parse id id ''no-schema'' ArxivParser_init
     = Inl NoSchemaException" by blast
  from arxiv_schema_check_with_root[where bsstrtodict = ex_loader and doc = "''wrong-schema''" and clean_output = id
      and name_parse = ex_name_parse and entity_convert = id and format_out = id, OF l2 m2] a2
  have r2: "ArxivParser_parse ex_loader id ex_name_parse id id ''wrong-schema'' ArxivParser_init
     = Inl WrongSchemaException" by blast
  from arxiv_schema_check_with_root[where bsstrtodict = ex_loader and doc = "''good''" and clean_output = id
      and name_parse = ex_name_parse and entity_convert = id and format_out = id, OF l3 m3] a3
  have r3: "ArxivParser_parse ex_loader id ex_name_parse id id ''good'' ArxivParser_init
     = ArxivParser_extract id ex_name_parse id id (ex_arxiv ''good'')"
    unfolding e3 by blast
  from r1 r2 r3 show ?thesis by blast
qed

text \<open>
  The lookups assign \<^verbatim>\<open>input_metadata\<close> only when they find a record with a
  metadata node, and then assign whatever the search for \<^verbatim>\<open>oai_dc:dc\<close> returns;
  otherwise the attribute keeps the value it had.
\<close>

lemma locate_metadata:
  "input_metadata (locate d st) =
     (case find_first ''record'' d of
        None \<Rightarrow> input_metadata st
      | Some r \<Rightarrow>
          (case find_first ''metadata'' r of
             None \<Rightarrow> input_metadata st
           | Some m \<Rightarrow> find_first ''oai_dc:dc'' m))"
  by (simp add: locate_def split: option.splits)

text \<open>
  C2 on the code. The schema check reads the attribute from \<^verbatim>\<open>input_metadata\<close>
  without testing that the lookups found a root. When they leave it \<^verbatim>\<open>None\<close>, as
  on a fresh parser for a record with no \<^verbatim>\<open>oai_dc:dc\<close> node, \<^verbatim>\<open>parse\<close>
  raises \<^verbatim>\<open>AttributeError\<close>: not \<^verbatim>\<open>NoSchemaException\<close>, although the
  record declares no \<^verbatim>\<open>xmlns:oai_dc\<close> at all.
\<close>

theorem arxiv_schema_check_no_root:
  assumes "bsstrtodict doc = Some d"
    and "input_metadata (locate d st) = None"
  shows "ArxivParser_parse bsstrtodict clean_output name_parse entity_convert format_out doc st
           = Inl AttributeError"
  using assms by (simp add: ArxivParser_parse_def ArxivParser_parse_tree_def Let_def)

text \<open>
  A record in the arXivRaw schema and a deleted record, on a fresh parser, raise
  \<^verbatim>\<open>AttributeError\<close>. An error response without any record, given to a parser
  that has parsed the document \<^verbatim>\<open>good\<close> before, passes the check on the root left
  from that document and returns its fields again.
\<close>

theorem arxiv_schema_check_no_root_witness:
  "ArxivParser_parse ex_loader id ex_name_parse id id ''raw'' ArxivParser_init = Inl AttributeError
   \<and> ArxivParser_parse ex_loader id ex_name_parse id id ''deleted'' ArxivParser_init = Inl AttributeError
   \<and> find_all ''oai_dc:dc'' ex_error_response = []
   \<and> map_sum id fst (ArxivParser_parse ex_loader id ex_name_parse id id ''error'' ex_arxiv_reused) =
       Inr [(''publication'', JStr ''eprint arXiv:1234.5678''),
            (''ids'', JDict [(''preprint'', JDict [(''source'', JStr ''arXiv''), (''id'', JStr ''1234.5678'')]),
                             (''doi'', JStr ''10.1000/xyz'')]),
            (''title'', JStr ''Dark matter: a review''),
            (''authors'', JList [JStr ''Doe, J.''])]"
proof -
  have l1: "ex_loader ''raw'' = Some ex_record_raw"
    by (simp add: ex_loader_def)
  have m1: "input_metadata (locate ex_record_raw ArxivParser_init) = None"
    by code_simp
  have l2: "ex_loader ''deleted'' = Some ex_record_deleted"
    by (simp add: ex_loader_def)
  have m2: "input_metadata (locate ex_record_deleted ArxivParser_init) = None"
    by code_simp
  have n: "find_all ''oai_dc:dc'' ex_error_response = []"
    by code_simp
  have s: "map_sum id fst (ArxivParser_parse ex_loader id ex_name_parse id id ''error'' ex_arxiv_reused) =
       Inr [(''publication'', JStr ''eprint arXiv:1234.5678''),
            (''ids'', JDict [(''preprint'', JDict [(''source'', JStr ''arXiv''), (''id'', JStr ''1234.5678'')]),
                             (''doi'', JStr ''10.1000/xyz'')]),
            (''title'', JStr ''Dark matter: a review''),
            (''authors'', JList [JStr ''Doe, J.''])]"
    by code_simp
  from arxiv_schema_check_no_root[where bsstrtodict = ex_loader and doc = "''raw''" and clean_output = id
      and name_parse = ex_name_parse and entity_convert = id and format_out = id, OF l1 m1]
    arxiv_schema_check_no_root[where bsstrtodict = ex_loader and doc = "''deleted''" and clean_output = id
      and name_parse = ex_name_parse and entity_convert = id and format_out = id, OF l2 m2]
    n s
  show ?thesis by blast
qed

text \<open>
  C7. With a metadata root: no \<^verbatim>\<open>dc:title\<close> node raises
  \<^verbatim>\<open>MissingTitleException\<close>; exactly one stores its cleaned text; two or more store
  the cleaned text of all of them, in document order, joined with \<^verbatim>\<open>": "\<close>.
\<close>

theorem arxiv_title:
  assumes "input_metadata st = Some md"
  shows "(find_all ''dc:title'' md = []
            \<longrightarrow> ArxivParser_parse_title clean_output st = Inl MissingTitleException)
       \<and> (\<forall>t. find_all ''dc:title'' md = [t]
            \<longrightarrow> ArxivParser_parse_title clean_output st =
                  Inr (st\<lparr>ax_base_metadata :=
                         dict_set ''title'' (JStr (clean_output (get_text t))) (ax_base_metadata st)\<rparr>))
       \<and> (2 \<le> length (find_all ''dc:title'' md)
            \<longrightarrow> ArxivParser_parse_title clean_output st =
                  Inr (st\<lparr>ax_base_metadata :=
                         dict_set ''title''
                           (JStr (clean_output (join '': '' (map get_text (find_all ''dc:title'' md)))))
                           (ax_base_metadata st)\<rparr>))"
  using assms
  by (auto simp: ArxivParser_parse_title_def Let_def)

theorem arxiv_title_witness:
  "ArxivParser_parse_title id (ex_arxiv ''good'') =
     Inr ((ex_arxiv ''good'')\<lparr>ax_base_metadata := [(''title'', JStr ''Dark matter: a review'')]\<rparr>)"
proof -
  have m: "input_metadata (ex_arxiv ''good'') = Some (Elem ''oai_dc:dc'' ex_schema ex_dc)"
    by code_simp
  have t: "find_all ''dc:title'' (Elem ''oai_dc:dc'' ex_schema ex_dc)
             = [Elem ''dc:title'' [] [Text ''Dark matter''], Elem ''dc:title'' [] [Text ''a review'']]"
    by code_simp
  have b: "ax_base_metadata (ex_arxiv ''good'') = []"
    by code_simp
  from arxiv_title[OF m, of id] show ?thesis
    unfolding t b by (simp add: dict_set_def)
qed

lemma parse_ids_metadata:
  "ArxivParser_parse_ids st = Inr st1 \<Longrightarrow> input_metadata st1 = input_metadata st"
  by (auto simp: ArxivParser_parse_ids_def ebind_Inr_iff)

lemma parse_title_metadata:
  "ArxivParser_parse_title clean_output st = Inr st1 \<Longrightarrow> input_metadata st1 = input_metadata st"
  by (auto simp: ArxivParser_parse_title_def ebind_Inr_iff Let_def split: if_splits)

lemma build_author_list_no_creator:
  assumes "build_aff_dict cm = Inr aff_dict" and "find_all ''creator'' cm = []"
  shows "build_author_list cm = Inr []"
  using assms by (simp add: build_author_list_def)

text \<open>
  C3, as the code has it. In \<^verbatim>\<open>ArxivParser\<close>, when the \<^verbatim>\<open>dc:creator\<close> nodes
  expand to no author entry, \<^verbatim>\<open>_parse_author\<close> raises
  \<^verbatim>\<open>MissingAuthorsException\<close>, and so does the whole extraction once the
  identifier and title steps have passed: nothing is returned for the record. In
  \<^verbatim>\<open>WileyParser\<close>, when the affiliation table is built and there is no
  \<^verbatim>\<open>creator\<close> node, \<^verbatim>\<open>_parse_authors\<close> raises nothing and returns the
  state as it was.
\<close>

theorem missing_authors:
  assumes "ArxivParser_parse_ids st = Inr st1"
    and "ArxivParser_parse_title clean_output st1 = Inr st2"
    and "input_metadata st = Some md"
    and "concat (map (\<lambda>a. name_parse (get_text a)) (find_all ''dc:creator'' md)) = []"
    and "content_meta wst = Some cm"
    and "build_aff_dict cm = Inr aff_dict"
    and "find_all ''creator'' cm = []"
  shows "ArxivParser_parse_author name_parse st2 = Inl MissingAuthorsException
       \<and> ArxivParser_extract clean_output name_parse entity_convert format_out st
           = Inl MissingAuthorsException
       \<and> WileyParser_parse_authors wst = Inr wst"
proof -
  from assms(1,2,3) have md: "input_metadata st2 = Some md"
    by (simp add: parse_ids_metadata parse_title_metadata)
  with assms(4) have a: "ArxivParser_parse_author name_parse st2 = Inl MissingAuthorsException"
    by (simp add: ArxivParser_parse_author_def)
  with assms(1,2) have b: "ArxivParser_extract clean_output name_parse entity_convert format_out st
           = Inl MissingAuthorsException"
    by (simp add: ArxivParser_extract_def)
  from assms(5) build_author_list_no_creator[OF assms(6,7)]
  have c: "WileyParser_parse_authors wst = Inr wst"
    by (simp add: WileyParser_parse_authors_def)
  from a b c show ?thesis by blast
qed

theorem missing_authors_witness:
  "ArxivParser_extract id ex_name_parse id id (ex_arxiv ''no-authors'') = Inl MissingAuthorsException
   \<and> WileyParser_parse_authors (ex_wiley_content ''no-creator'') = Inr (ex_wiley_content ''no-creator'')"
proof -
  let ?bm1 = "[(''publication'', JStr ''eprint arXiv:1234.5678''),
               (''ids'', JDict [(''preprint'', JDict [(''source'', JStr ''arXiv''), (''id'', JStr ''1234.5678'')])])]"
  have h1: "ArxivParser_parse_ids (ex_arxiv ''no-authors'')
              = Inr ((ex_arxiv ''no-authors'')\<lparr>ax_base_metadata := ?bm1\<rparr>)"
    by code_simp
  have h2: "ArxivParser_parse_title id ((ex_arxiv ''no-authors'')\<lparr>ax_base_metadata := ?bm1\<rparr>)
              = Inr ((ex_arxiv ''no-authors'')\<lparr>ax_base_metadata := ?bm1 @ [(''title'', JStr ''Dark matter'')]\<rparr>)"
    by code_simp
  have h3: "input_metadata (ex_arxiv ''no-authors'')
              = Some (Elem ''oai_dc:dc'' ex_schema [Elem ''dc:title'' [] [Text ''Dark matter'']])"
    by code_simp
  have h4: "concat (map (\<lambda>a. ex_name_parse (get_text a))
              (find_all ''dc:creator'' (Elem ''oai_dc:dc'' ex_schema [Elem ''dc:title'' [] [Text ''Dark matter'']]))) = []"
    by code_simp
  have h5: "content_meta (ex_wiley_content ''no-creator'') = Some (ex_content ''no-creator'')"
    by (simp add: ex_wiley_content_def)
  have h6: "build_aff_dict (ex_content ''no-creator'') = Inr []"
    by code_simp
  have h7: "find_all ''creator'' (ex_content ''no-creator'') = []"
    by code_simp
  from missing_authors[OF h1 h2 h3 h4 h5 h6 h7, of id id] show ?thesis by blast
qed

text \<open>
  A Wiley document without any \<^verbatim>\<open>creator\<close> node: \<^verbatim>\<open>parse\<close> raises nothing
  and hands a record without \<^verbatim>\<open>authors\<close> to \<^verbatim>\<open>format\<close> (here the identity).
\<close>

theorem wiley_no_authors_counterexample:
  "map_sum id fst (WileyParser_parse ex_wiley_loader id get_text id ''no-creator'' WileyParser_init) =
     Inr [(''ids'', JDict [(''doi'', JStr ''10.1000/abc''), (''pub-id'', JList [])]),
          (''issn'', JList [JTuple [JStr ''print'', JStr ''0004-637X'']]),
          (''publication'', JStr ''Journal of Examples''),
          (''volume'', JStr ''12''),
          (''page_first'', JStr ''101''),
          (''pubdate_print'', JStr ''2020-05-00''),
          (''pubdate_electronic'', JStr ''2020-01-15''),
          (''title'', JStr ''A paper'')]"
  by code_simp

lemma split_on_not_Nil [simp]: "split_on c s \<noteq> []"
  by (induction s) (auto split: list.splits)

lemma split_on_no_sep: "c \<notin> set b \<Longrightarrow> split_on c b = [b]"
  by (induction b) auto

lemma split_on_sep: "c \<in> set s \<Longrightarrow> \<exists>w v vs. split_on c s = w # v # vs"
proof (induction s)
  case Nil
  then show ?case by simp
next
  case (Cons x s)
  show ?case
  proof (cases "x = c")
    case True
    then show ?thesis by (cases "split_on c s") simp_all
  next
    case False
    with Cons.prems have "c \<in> set s" by simp
    from Cons.IH[OF this] False show ?thesis by auto
  qed
qed

lemma last_split_on: "c \<notin> set b \<Longrightarrow> last (split_on c (a @ c # b)) = b"
proof (induction a)
  case Nil
  then show ?case by (simp add: split_on_no_sep)
next
  case (Cons x a)
  have "c \<in> set (a @ c # b)" by simp
  from split_on_sep[OF this] obtain w v vs where "split_on c (a @ c # b) = w # v # vs"
    by blast
  with Cons show ?case by auto
qed

lemma last_doi_node_Nil [simp]: "last_doi_node [] = None"
  by (simp add: last_doi_node_def)

lemma last_doi_node_Cons [simp]:
  "last_doi_node (d # ds) =
     (case last_doi_node ds of
        Some e \<Rightarrow> Some e
      | None \<Rightarrow> if contains ''doi:'' (get_text d) then Some d else None)"
  by (auto simp: last_doi_node_def split: list.splits)

text \<open>The loop over the \<^verbatim>\<open>dc:identifier\<close> nodes, started with an \<^verbatim>\<open>ids\<close> dictionary in place.\<close>

lemma efold_doi_step:
  assumes "dict_get bm ''ids'' = Some (JDict ids)"
  shows "\<exists>bm' ids'. efold doi_step ds bm = Inr bm'
           \<and> dict_get bm' ''ids'' = Some (JDict ids')
           \<and> dict_get ids' ''preprint'' = dict_get ids ''preprint''
           \<and> dict_get ids' ''doi'' =
               (case last_doi_node ds of
                  None \<Rightarrow> dict_get ids ''doi''
                | Some d \<Rightarrow> Some (JStr (replace ''doi:'' [] (get_text d))))"
  using assms
proof (induction ds arbitrary: bm ids)
  case Nil
  then show ?case by simp
next
  case (Cons d ds)
  show ?case
  proof (cases "contains ''doi:'' (get_text d)")
    case True
    let ?ids1 = "dict_set ''doi'' (JStr (replace ''doi:'' [] (get_text d))) ids"
    let ?bm1 = "dict_set ''ids'' (JDict ?ids1) bm"
    from True Cons.prems have step: "doi_step d bm = Inr ?bm1"
      by (simp add: doi_step_def)
    have g: "dict_get ?bm1 ''ids'' = Some (JDict ?ids1)" by simp
    from Cons.IH[OF g] step True show ?thesis
      by (auto split: option.splits)
  next
    case False
    then have step: "doi_step d bm = Inr bm" by (simp add: doi_step_def)
    from Cons.IH[OF Cons.prems] step False show ?thesis
      by (auto split: option.splits)
  qed
qed

text \<open>
  C8, as the code has it. With a header identifier and a metadata root,
  \<^verbatim>\<open>_parse_ids\<close> returns; \<^verbatim>\<open>ids.preprint.id\<close> is the last segment of the
  header identifier text split at colons (what follows its last colon), and
  \<^verbatim>\<open>ids.doi\<close> is the text of the last \<^verbatim>\<open>dc:identifier\<close> node that contains
  \<^verbatim>\<open>doi:\<close>, with every \<^verbatim>\<open>doi:\<close> removed (absent when there is no such node).
\<close>

theorem arxiv_ids:
  assumes "input_header st = Some hdr"
    and "find_first ''identifier'' hdr = Some i"
    and "input_metadata st = Some md"
  shows "\<exists>st' ids. ArxivParser_parse_ids st = Inr st'
           \<and> dict_get (ax_base_metadata st') ''ids'' = Some (JDict ids)
           \<and> dict_get ids ''preprint'' =
               Some (JDict [(''source'', JStr ''arXiv''),
                            (''id'', JStr (last (split_on CHR '':'' (get_text i))))])
           \<and> (\<forall>a b. get_text i = a @ CHR '':'' # b \<and> CHR '':'' \<notin> set b
                 \<longrightarrow> last (split_on CHR '':'' (get_text i)) = b)
           \<and> dict_get ids ''doi'' =
               (case last_doi_node (find_all ''dc:identifier'' md) of
                  None \<Rightarrow> None
                | Some d \<Rightarrow> Some (JStr (replace ''doi:'' [] (get_text d))))"
proof -
  let ?aid = "last (split_on CHR '':'' (get_text i))"
  let ?ids0 = "[(''preprint'', JDict [(''source'', JStr ''arXiv''), (''id'', JStr ?aid)])]"
  let ?bm0 = "header_ids hdr (ax_base_metadata st)"
  from assms(2) have g: "dict_get ?bm0 ''ids'' = Some (JDict ?ids0)"
    by (simp add: header_ids_def Let_def)
  from efold_doi_step[OF g, of "find_all ''dc:identifier'' md"]
  obtain bm' ids' where r: "efold doi_step (find_all ''dc:identifier'' md) ?bm0 = Inr bm'"
    and i1: "dict_get bm' ''ids'' = Some (JDict ids')"
    and i2: "dict_get ids' ''preprint'' = dict_get ?ids0 ''preprint''"
    and i3: "dict_get ids' ''doi'' =
               (case last_doi_node (find_all ''dc:identifier'' md) of
                  None \<Rightarrow> dict_get ?ids0 ''doi''
                | Some d \<Rightarrow> Some (JStr (replace ''doi:'' [] (get_text d))))"
    by blast
  from assms(1,3) r have p: "ArxivParser_parse_ids st = Inr (st\<lparr>ax_base_metadata := bm'\<rparr>)"
    by (simp add: ArxivParser_parse_ids_def)
  have s: "\<forall>a b. get_text i = a @ CHR '':'' # b \<and> CHR '':'' \<notin> set b \<longrightarrow> ?aid = b"
    by (auto simp: last_split_on)
  have d0: "dict_get ?ids0 ''doi'' = None" and p0: "dict_get ?ids0 ''preprint'' =
      Some (JDict [(''source'', JStr ''arXiv''), (''id'', JStr ?aid)])"
    by (simp_all add: dict_get_def)
  from p i1 i2 i3 s d0 p0 show ?thesis
    by (intro exI[of _ "st\<lparr>ax_base_metadata := bm'\<rparr>"] exI[of _ ids'])
      (simp split: option.splits)
qed

theorem arxiv_ids_witness:
  "\<exists>st' ids. ArxivParser_parse_ids (ex_arxiv ''good'') = Inr st'
     \<and> dict_get (ax_base_metadata st') ''ids'' = Some (JDict ids)
     \<and> dict_get ids ''preprint'' = Some (JDict [(''source'', JStr ''arXiv''), (''id'', JStr ''1234.5678'')])
     \<and> dict_get ids ''doi'' = Some (JStr ''10.1000/xyz'')"
proof -
  have h: "input_header (ex_arxiv ''good'')
             = Some (Elem ''header'' [] [Elem ''identifier'' [] [Text ''oai:arXiv.org:1234.5678'']])"
    by code_simp
  have i: "find_first ''identifier'' (Elem ''header'' [] [Elem ''identifier'' [] [Text ''oai:arXiv.org:1234.5678'']])
             = Some (Elem ''identifier'' [] [Text ''oai:arXiv.org:1234.5678''])"
    by code_simp
  have m: "input_metadata (ex_arxiv ''good'') = Some (Elem ''oai_dc:dc'' ex_schema ex_dc)"
    by code_simp
  have l: "last_doi_node (find_all ''dc:identifier'' (Elem ''oai_dc:dc'' ex_schema ex_dc))
             = Some (Elem ''dc:identifier'' [] [Text ''doi:10.1000/xyz''])"
    by code_simp
  have s: "last (split_on CHR '':'' (get_text (Elem ''identifier'' [] [Text ''oai:arXiv.org:1234.5678''])))
             = ''1234.5678''"
    by code_simp
  have r: "replace ''doi:'' [] ''doi:10.1000/xyz'' = ''10.1000/xyz''"
    by code_simp
  from arxiv_ids[OF h i m] r show ?thesis
    unfolding l s by auto
qed

text \<open>
  The scenario of the specification: header identifier text \<^verbatim>\<open>1234:doi:xyz\<close> and a
  \<^verbatim>\<open>dc:identifier\<close> node \<^verbatim>\<open>doi:xyz\<close>. The preprint id is \<^verbatim>\<open>xyz\<close>, the last
  segment, not \<^verbatim>\<open>1234\<close>.
\<close>

theorem arxiv_ids_scenario_counterexample:
  "ArxivParser_parse_ids (ex_arxiv ''scenario'') =
     Inr ((ex_arxiv ''scenario'')\<lparr>ax_base_metadata :=
            [(''publication'', JStr ''eprint arXiv:xyz''),
             (''ids'', JDict [(''preprint'', JDict [(''source'', JStr ''arXiv''), (''id'', JStr ''xyz'')]),
                              (''doi'', JStr ''xyz'')])]\<rparr>)"
  by code_simp

section \<open>The authors of a Wiley record\<close>

text \<open>
  C4 on the code. A label that resolves to nothing does not drop the author. When an
  earlier label was resolved, the author is emitted with that earlier affiliation
  repeated (\<^verbatim>\<open>#a1 #zz\<close> gives \<^verbatim>\<open>a1\<close> twice); when none was, the read of the
  unbound \<^verbatim>\<open>akey\<close> raises and no author list is produced at all.
\<close>

theorem wiley_unresolved_label:
  "build_author_list (ex_content ''stale'') =
     Inr [JDict [(''given'', JStr ''J.''), (''surname'', JStr ''Doe''),
                 (''aff'', JList [JStr ''Univ A'', JStr ''Univ A'']),
                 (''xaff'', JList [JStr ''a1'', JStr ''a1''])],
          JDict [(''given'', JStr ''J.''), (''surname'', JStr ''Roe''),
                 (''aff'', JList [JStr ''Univ B, NL'']),
                 (''xaff'', JList [JStr ''a2''])]]
   \<and> build_author_list (ex_content ''unbound'') = Inl UnboundLocalError
   \<and> map_sum id fst (WileyParser_parse ex_wiley_loader id get_text id ''unbound'' WileyParser_init)
       = Inl UnboundLocalError"
  by code_simp

lemma dict_get_Nil: "dict_get [] k = None"
  by (simp add: dict_get_def)

text \<open>A property that every step of a loop keeps holds at the end of the loop.\<close>

lemma efold_invariant:
  assumes "P s" and "efold f xs s = Inr s'"
    and "\<And>x t t'. P t \<Longrightarrow> f x t = Inr t' \<Longrightarrow> P t'"
  shows "P s'"
  using assms(1,2)
proof (induction xs arbitrary: s)
  case Nil
  then show ?case by simp
next
  case (Cons x xs)
  from Cons.prems(2) obtain t where t: "f x s = Inr t" and r: "efold f xs t = Inr s'"
    by (auto split: sum.splits)
  from assms(3)[OF Cons.prems(1) t] have "P t" .
  from Cons.IH[OF this r] show ?case .
qed

lemma aff_label_step_lengths:
  assumes "aff_label_step aff_dict a s = Inr s'"
    and "length (fst (snd s)) = length (snd (snd s))"
  shows "length (fst (snd s')) = length (snd (snd s'))"
  using assms
  by (auto simp: aff_label_step_def Let_def split: prod.splits option.splits if_splits)

lemma efold_aff_label_step_lengths:
  assumes "efold (aff_label_step aff_dict) labels (akey, [], []) = Inr (akey', affs, xaffs)"
  shows "length affs = length xaffs"
proof -
  have "length (fst (snd (akey', affs, xaffs))) = length (snd (snd (akey', affs, xaffs)))"
    by (rule efold_invariant[where P = "\<lambda>s. length (fst (snd s)) = length (snd (snd s))",
          OF _ assms]) (simp_all add: aff_label_step_lengths)
  then show ?thesis by simp
qed

lemma orcid_step_keeps:
  assumes "orcid_step i t = Inr t'" and "k \<noteq> ''orcid''"
  shows "dict_get t' k = dict_get t k"
  using assms
  by (auto simp: orcid_step_def split: sum.splits if_splits option.splits)

lemma efold_orcid_step_keeps:
  assumes "efold orcid_step ids t = Inr t'" and "k \<noteq> ''orcid''"
  shows "dict_get t' k = dict_get t k"
  by (rule efold_invariant[where P = "\<lambda>u. dict_get u k = dict_get t k", OF _ assms(1)])
    (simp_all add: orcid_step_keeps[OF _ assms(2)])

text \<open>One creator appends one entry, and the entry has the shape above.\<close>

lemma creator_step_entry:
  assumes "creator_step aff_dict c (akey, author_list) = Inr (akey', author_list')"
  shows "\<exists>e. author_list' = author_list @ [e] \<and> aff_xaff_same_length e"
proof -
  let ?t1 = "case find_first ''givenNames'' c of
               None \<Rightarrow> []
             | Some g \<Rightarrow> dict_set ''given'' (JStr (get_text g)) []"
  let ?t2 = "case find_first ''familyName'' c of
               None \<Rightarrow> ?t1
             | Some f \<Rightarrow> dict_set ''surname'' (JStr (get_text f)) ?t1"
  have t2: "dict_get ?t2 ''aff'' = None" "dict_get ?t2 ''xaff'' = None"
    by (auto simp: dict_get_Nil split: option.splits)
  from assms obtain t3 where t3: "efold orcid_step (find_all ''id'' c) ?t2 = Inr t3"
    by (auto simp: creator_step_def Let_def ebind_Inr_iff)
  let ?t4 = "case find_first ''email'' c of
               None \<Rightarrow> t3
             | Some m \<Rightarrow> dict_set ''email'' (JStr (get_text m)) t3"
  from efold_orcid_step_keeps[OF t3] t2
  have t4: "dict_get ?t4 ''aff'' = None" "dict_get ?t4 ''xaff'' = None"
    by (auto split: option.splits)
  show ?thesis
  proof (cases "has_attr c ''affiliationRef''")
    case False
    with assms t3 have "author_list' = author_list @ [JDict ?t4]"
      by (simp add: creator_step_def Let_def)
    with t4 show ?thesis by simp
  next
    case True
    with assms t3 obtain affs_raw affs xaffs where
      l: "efold (aff_label_step aff_dict) (split_ws affs_raw) (akey, [], []) = Inr (akey', affs, xaffs)"
      and r: "author_list' = author_list @
                [JDict (dict_set ''xaff'' (JList (map JStr xaffs))
                         (dict_set ''aff'' (JList (map JStr affs)) ?t4))]"
      by (auto simp: creator_step_def Let_def ebind_Inr_iff)
    from efold_aff_label_step_lengths[OF l] r show ?thesis by simp
  qed
qed

lemma efold_creator_step_entries:
  assumes "efold (creator_step aff_dict) cs (akey, author_list) = Inr (akey', author_list')"
    and "list_all aff_xaff_same_length author_list"
  shows "list_all aff_xaff_same_length author_list'
       \<and> length author_list' = length author_list + length cs"
  using assms
proof (induction cs arbitrary: akey author_list)
  case Nil
  then show ?case by simp
next
  case (Cons c cs)
  from Cons.prems(1) obtain k1 al1 where
    s: "creator_step aff_dict c (akey, author_list) = Inr (k1, al1)"
    and r: "efold (creator_step aff_dict) cs (k1, al1) = Inr (akey', author_list')"
    by (auto split: sum.splits)
  from creator_step_entry[OF s] obtain e where e: "al1 = author_list @ [e]" "aff_xaff_same_length e"
    by blast
  with Cons.prems(2) have "list_all aff_xaff_same_length al1" by simp
  from Cons.IH[OF r this] e(1) show ?case by simp
qed

text \<open>
  C5. When \<^verbatim>\<open>_parse_authors\<close> returns and the content holds a \<^verbatim>\<open>creator\<close>
  node, the \<^verbatim>\<open>authors\<close> list has one entry per \<^verbatim>\<open>creator\<close> node, and every
  entry carries either neither \<^verbatim>\<open>aff\<close> nor \<^verbatim>\<open>xaff\<close>, or both, as lists of the
  same length: for every content, hence every affiliation table built from it.
\<close>

theorem wiley_aff_xaff_same_length:
  assumes "content_meta st = Some cm"
    and "WileyParser_parse_authors st = Inr st'"
    and "find_all ''creator'' cm \<noteq> []"
  shows "\<exists>author_list. dict_get (base_metadata st') ''authors'' = Some (JList author_list)
           \<and> length author_list = length (find_all ''creator'' cm)
           \<and> (\<forall>e\<in>set author_list. aff_xaff_same_length e)"
proof -
  from assms(1,2) obtain author_list where
    b: "build_author_list cm = Inr author_list"
    and r: "st' = (if author_list \<noteq> []
                  then st\<lparr>base_metadata := dict_set ''authors'' (JList author_list) (base_metadata st)\<rparr>
                  else st)"
    by (auto simp: WileyParser_parse_authors_def ebind_Inr_iff split: if_splits)
  from b obtain aff_dict akey' where
    "efold (creator_step aff_dict) (find_all ''creator'' cm) (None, []) = Inr (akey', author_list)"
    by (auto simp: build_author_list_def ebind_Inr_iff)
  from efold_creator_step_entries[OF this]
  have ok: "list_all aff_xaff_same_length author_list"
    and len: "length author_list = length (find_all ''creator'' cm)"
    by simp_all
  from len assms(3) have "author_list \<noteq> []" by auto
  with r have "dict_get (base_metadata st') ''authors'' = Some (JList author_list)" by simp
  with ok len show ?thesis by (auto simp: list_all_iff)
qed

theorem wiley_aff_xaff_same_length_witness:
  "\<exists>author_list.
      dict_get (base_metadata
         ((ex_wiley_content ''resolved'')\<lparr>base_metadata :=
            [(''authors'',
              JList [JDict [(''given'', JStr ''J.''), (''surname'', JStr ''Doe''),
                            (''aff'', JList [JStr ''Univ A'', JStr ''Univ B, NL'']),
                            (''xaff'', JList [JStr ''a1'', JStr ''a2''])],
                     JDict [(''given'', JStr ''J.''), (''surname'', JStr ''Roe'')]])]\<rparr>))
        ''authors'' = Some (JList author_list)
      \<and> length author_list = 2
      \<and> list_all aff_xaff_same_length author_list"
proof -
  have h1: "content_meta (ex_wiley_content ''resolved'') = Some (ex_content ''resolved'')"
    by (simp add: ex_wiley_content_def)
  have h2: "WileyParser_parse_authors (ex_wiley_content ''resolved'') =
     Inr ((ex_wiley_content ''resolved'')\<lparr>base_metadata :=
            [(''authors'',
              JList [JDict [(''given'', JStr ''J.''), (''surname'', JStr ''Doe''),
                            (''aff'', JList [JStr ''Univ A'', JStr ''Univ B, NL'']),
                            (''xaff'', JList [JStr ''a1'', JStr ''a2''])],
                     JDict [(''given'', JStr ''J.''), (''surname'', JStr ''Roe'')]])]\<rparr>)"
    by code_simp
  have h3: "find_all ''creator'' (ex_content ''resolved'') \<noteq> []"
    by code_simp
  have n: "length (find_all ''creator'' (ex_content ''resolved'')) = 2"
    by code_simp
  from wiley_aff_xaff_same_length[OF h1 h2 h3] show ?thesis
    unfolding n by (auto simp: list_all_iff)
qed

section \<open>The record boundary patterns\<close>

text \<open>\<^verbatim>\<open>[^c]*c\<close>: everything up to the first \<^verbatim>\<open>c\<close>, which must occur.\<close>

lemma re_match_star_lit:
  "re_match [StarNot c, Lit [c]] s =
     (if c \<in> set s then Some (tl (dropWhile (\<lambda>x. x \<noteq> c) s)) else None)"
  by (induction s) auto

lemma re_match_tag:
  "re_match [Lit name, NotAhead ''-'', StarNot CHR ''>'', Lit ''>''] s =
     (if prefix name s \<and> \<not> prefix ''-'' (drop (length name) s)
         \<and> CHR ''>'' \<in> set (drop (length name) s)
      then Some (tl (dropWhile (\<lambda>x. x \<noteq> CHR ''>'') (drop (length name) s)))
      else None)"
  by (simp add: re_match_star_lit)

text \<open>
  C9, as the code has it. \<^verbatim>\<open>start_re\<close> matches at the start of a text exactly when
  the text begins with \<^verbatim>\<open><record\<close>, the next character is not a hyphen, and a
  \<^verbatim>\<open>>\<close> follows somewhere; the match ends at the first \<^verbatim>\<open>>\<close>. The same
  holds of \<^verbatim>\<open>end_re\<close> and \<^verbatim>\<open></record\<close>. Only a hyphen after the tag name
  is excluded.
\<close>

theorem record_boundary_patterns:
  "re_match start_re s =
     (if prefix ''<record'' s \<and> \<not> prefix ''<record-'' s \<and> CHR ''>'' \<in> set (drop 7 s)
      then Some (tl (dropWhile (\<lambda>x. x \<noteq> CHR ''>'') (drop 7 s)))
      else None)
   \<and> re_match end_re s =
     (if prefix ''</record'' s \<and> \<not> prefix ''</record-'' s \<and> CHR ''>'' \<in> set (drop 8 s)
      then Some (tl (dropWhile (\<lambda>x. x \<noteq> CHR ''>'') (drop 8 s)))
      else None)"
proof -
  have a: "prefix ''-'' (drop 7 s) = prefix ''<record-'' s" if "prefix ''<record'' s"
    using that by (auto simp: prefix_def)
  have b: "prefix ''-'' (drop 8 s) = prefix ''</record-'' s" if "prefix ''</record'' s"
    using that by (auto simp: prefix_def)
  have l7: "length ''<record'' = 7" and l8: "length ''</record'' = 8"
    by simp_all
  have s: "re_match start_re s =
     (if prefix ''<record'' s \<and> \<not> prefix ''-'' (drop 7 s) \<and> CHR ''>'' \<in> set (drop 7 s)
      then Some (tl (dropWhile (\<lambda>x. x \<noteq> CHR ''>'') (drop 7 s)))
      else None)"
    unfolding start_re_def re_match_tag l7 ..
  have e: "re_match end_re s =
     (if prefix ''</record'' s \<and> \<not> prefix ''-'' (drop 8 s) \<and> CHR ''>'' \<in> set (drop 8 s)
      then Some (tl (dropWhile (\<lambda>x. x \<noteq> CHR ''>'') (drop 8 s)))
      else None)"
    unfolding end_re_def re_match_tag l8 ..
  have s': "re_match start_re s =
     (if prefix ''<record'' s \<and> \<not> prefix ''<record-'' s \<and> CHR ''>'' \<in> set (drop 7 s)
      then Some (tl (dropWhile (\<lambda>x. x \<noteq> CHR ''>'') (drop 7 s)))
      else None)"
  proof (cases "prefix ''<record'' s")
    case True
    show ?thesis unfolding s a[OF True] ..
  next
    case False
    then show ?thesis unfolding s by simp
  qed
  have e': "re_match end_re s =
     (if prefix ''</record'' s \<and> \<not> prefix ''</record-'' s \<and> CHR ''>'' \<in> set (drop 8 s)
      then Some (tl (dropWhile (\<lambda>x. x \<noteq> CHR ''>'') (drop 8 s)))
      else None)"
  proof (cases "prefix ''</record'' s")
    case True
    show ?thesis unfolding e b[OF True] ..
  next
    case False
    then show ?thesis unfolding e by simp
  qed
  from s' e' show ?thesis by (rule conjI)
qed

theorem record_boundary_patterns_witness:
  "re_match start_re ''<record id=1>x'' = Some ''x''
   \<and> re_match start_re ''<record>x'' = Some ''x''
   \<and> re_match start_re ''<record-stub>x'' = None
   \<and> re_match end_re ''</record>y'' = Some ''y''
   \<and> re_match end_re ''</record-stub>y'' = None"
  using record_boundary_patterns[of "''<record id=1>x''"]
    record_boundary_patterns[of "''<record>x''"]
    record_boundary_patterns[of "''<record-stub>x''"]
    record_boundary_patterns[of "''</record>y''"]
    record_boundary_patterns[of "''</record-stub>y''"]
  by simp

text \<open>
  A tag that shares the prefix with another suffix, \<^verbatim>\<open><records>\<close> and
  \<^verbatim>\<open></records>\<close>, is matched, at the start and by a search of the text.
\<close>

theorem record_boundary_suffix_counterexample:
  "re_match start_re ''<records>'' = Some []
   \<and> re_match end_re ''</records>'' = Some []
   \<and> re_search start_re ''<list><records><item/></records></list>''
   \<and> re_search end_re ''<list><records><item/></records></list>''"
  by code_simp

section \<open>No Wiley step stores keywords\<close>

lemma dict_keys_get: "k \<notin> dict_keys d \<longleftrightarrow> dict_get d k = None"
  by (simp add: dict_keys_def dict_get_def map_of_eq_None_iff)

lemma level_step_metadata:
  "level_step p s = Inr s' \<Longrightarrow> base_metadata s' = base_metadata s"
  by (auto simp: level_step_def split: sum.splits if_splits)

lemma efold_level_step_metadata:
  assumes "efold level_step ps s = Inr s'"
  shows "base_metadata s' = base_metadata s"
  by (rule efold_invariant[where P = "\<lambda>t. base_metadata t = base_metadata s", OF _ assms])
    (simp_all add: level_step_metadata)

lemma parse_ids_no_keywords:
  assumes "WileyParser_parse_ids s = Inr s'" and "''keywords'' \<notin> dict_keys (base_metadata s)"
  shows "''keywords'' \<notin> dict_keys (base_metadata s')"
  using assms by (auto simp: WileyParser_parse_ids_def Let_def ebind_Inr_iff)

lemma pub_title_step_no_keywords:
  "''keywords'' \<notin> dict_keys bm \<Longrightarrow> pub_title_step t bm = Inr bm' \<Longrightarrow> ''keywords'' \<notin> dict_keys bm'"
  by (auto simp: pub_title_step_def split: sum.splits if_splits)

lemma pub_numbering_step_no_keywords:
  "''keywords'' \<notin> dict_keys bm \<Longrightarrow> pub_numbering_step n bm = Inr bm' \<Longrightarrow> ''keywords'' \<notin> dict_keys bm'"
  by (auto simp: pub_numbering_step_def split: sum.splits if_splits)

lemma parse_pub_no_keywords:
  assumes "WileyParser_parse_pub s = Inr s'" and "''keywords'' \<notin> dict_keys (base_metadata s)"
  shows "''keywords'' \<notin> dict_keys (base_metadata s')"
proof -
  from assms(1) obtain prod part bm1 bm2 where
    a: "efold pub_title_step (find_all ''title'' prod) (base_metadata s) = Inr bm1"
    and b: "efold pub_numbering_step (find_all ''numbering'' part) bm1 = Inr bm2"
    and c: "s' = s\<lparr>base_metadata := bm2\<rparr>"
    by (auto simp: WileyParser_parse_pub_def ebind_Inr_iff)
  have "''keywords'' \<notin> dict_keys bm1"
    by (rule efold_invariant[where P = "\<lambda>bm. ''keywords'' \<notin> dict_keys bm", OF assms(2) a])
      (rule pub_title_step_no_keywords)
  then have "''keywords'' \<notin> dict_keys bm2"
    by (rule efold_invariant[where P = "\<lambda>bm. ''keywords'' \<notin> dict_keys bm", OF _ b])
      (rule pub_numbering_step_no_keywords)
  with c show ?thesis by simp
qed

lemma page_numbering_step_no_keywords:
  "''keywords'' \<notin> dict_keys (snd t) \<Longrightarrow> page_numbering_step n t = Inr t'
     \<Longrightarrow> ''keywords'' \<notin> dict_keys (snd t')"
  by (auto simp: page_numbering_step_def split: sum.splits if_splits)

lemma page_id_step_no_keywords:
  "''keywords'' \<notin> dict_keys (snd t) \<Longrightarrow> page_id_step i t = Inr t'
     \<Longrightarrow> ''keywords'' \<notin> dict_keys (snd t')"
  by (auto simp: page_id_step_def Let_def split: sum.splits if_splits)

lemma page_count_no_keywords:
  "''keywords'' \<notin> dict_keys bm \<Longrightarrow> page_count unit bm = Inr bm' \<Longrightarrow> ''keywords'' \<notin> dict_keys bm'"
  by (auto simp: page_count_def split: option.splits sum.splits if_splits)

lemma parse_page_no_keywords:
  assumes "WileyParser_parse_page s = Inr s'" and "''keywords'' \<notin> dict_keys (base_metadata s)"
  shows "''keywords'' \<notin> dict_keys (base_metadata s')"
proof -
  from assms(1)[unfolded WileyParser_parse_page_def ebind_Inr_iff Let_def]
  obtain unit s1 s2 bm4 where
    a: "efold page_numbering_step (find_all ''numbering'' unit) (None, base_metadata s) = Inr s1"
    and b: "(if \<not> truthy (fst s1) then efold page_id_step (find_all ''id'' unit) s1 else Inr s1) = Inr s2"
    and c: "page_count unit
              (if truthy (if fst s2 \<in> set [Some ''n/a'', Some ''no''] then None else fst s2)
               then dict_set ''page_first''
                      (JStr (the (if fst s2 \<in> set [Some ''n/a'', Some ''no''] then None else fst s2)))
                      (snd s2)
               else snd s2) = Inr bm4"
    and d': "Inr (s\<lparr>base_metadata := bm4\<rparr>) = (Inr s' :: exn + wiley_state)"
    by blast
  from d' have d: "s' = s\<lparr>base_metadata := bm4\<rparr>" by simp
  from assms(2) have "''keywords'' \<notin> dict_keys (snd (None :: string option, base_metadata s))"
    by simp
  then have k1: "''keywords'' \<notin> dict_keys (snd s1)"
    by (rule efold_invariant[where P = "\<lambda>t. ''keywords'' \<notin> dict_keys (snd t)", OF _ a])
      (rule page_numbering_step_no_keywords)
  have k2: "''keywords'' \<notin> dict_keys (snd s2)"
  proof (cases "truthy (fst s1)")
    case True
    with b k1 show ?thesis by simp
  next
    case False
    with b have "efold page_id_step (find_all ''id'' unit) s1 = Inr s2" by simp
    from k1 this show ?thesis
      by (rule efold_invariant[where P = "\<lambda>t. ''keywords'' \<notin> dict_keys (snd t)"])
        (rule page_id_step_no_keywords)
  qed
  from k2 have "''keywords'' \<notin> dict_keys
              (if truthy (if fst s2 \<in> set [Some ''n/a'', Some ''no''] then None else fst s2)
               then dict_set ''page_first''
                      (JStr (the (if fst s2 \<in> set [Some ''n/a'', Some ''no''] then None else fst s2)))
                      (snd s2)
               else snd s2)"
    by simp
  from page_count_no_keywords[OF this c] d show ?thesis by simp
qed

lemma pubdate_events_no_keywords:
  "''keywords'' \<notin> dict_keys bm \<Longrightarrow> pubdate_events evs found bm = Inr bm'
     \<Longrightarrow> ''keywords'' \<notin> dict_keys bm'"
proof (induction evs arbitrary: found bm)
  case Nil
  then show ?case by simp
next
  case (Cons d ds)
  from Cons.prems(2) obtain ty where ty: "get_item d ''type'' = Inr ty"
    by (cases "get_item d ''type''") simp_all
  show ?case
  proof (cases "ty = ''firstOnline''")
    case True
    with ty Cons.prems show ?thesis by (auto split: sum.splits)
  next
    case notA: False
    show ?thesis
    proof (cases "ty = ''publishedOnlineFinalForm'' \<or> (ty = ''publishedOnlineAccepted'' \<and> \<not> found)")
      case True
      with ty notA Cons.prems(2) obtain dt found1 where
        r: "pubdate_events ds found1 (dict_set ''pubdate_electronic'' (JStr dt) bm) = Inr bm'"
        by (auto split: sum.splits if_splits)
      from Cons.prems(1) have "''keywords'' \<notin> dict_keys (dict_set ''pubdate_electronic'' (JStr dt) bm)"
        by simp
      from Cons.IH[OF this r] show ?thesis .
    next
      case False
      with ty notA Cons.prems(2) have "pubdate_events ds found bm = Inr bm'"
        by (auto split: if_splits)
      from Cons.IH[OF Cons.prems(1) this] show ?thesis .
    qed
  qed
qed

lemma parse_pubdate_no_keywords:
  assumes "WileyParser_parse_pubdate s = Inr s'" and "''keywords'' \<notin> dict_keys (base_metadata s)"
  shows "''keywords'' \<notin> dict_keys (base_metadata s')"
proof -
  from assms(1) obtain s1 unit bm where
    a: "pubdate_print s = Inr s1"
    and b: "pubdate_events (find_all ''event'' unit) False (base_metadata s1) = Inr bm"
    and c: "s' = s1\<lparr>base_metadata := bm\<rparr>"
    by (auto simp: WileyParser_parse_pubdate_def split: sum.splits option.splits)
  from a assms(2) have "''keywords'' \<notin> dict_keys (base_metadata s1)"
    by (auto simp: pubdate_print_def Let_def split: option.splits sum.splits)
  from pubdate_events_no_keywords[OF this b] c show ?thesis by simp
qed

lemma edhistory_step_no_keywords:
  "''keywords'' \<notin> dict_keys bm \<Longrightarrow> edhistory_step d bm = Inr bm' \<Longrightarrow> ''keywords'' \<notin> dict_keys bm'"
  by (auto simp: edhistory_step_def dates_trans_def split: sum.splits option.splits if_splits)

lemma parse_edhistory_no_keywords:
  assumes "WileyParser_parse_edhistory s = Inr s'" and "''keywords'' \<notin> dict_keys (base_metadata s)"
  shows "''keywords'' \<notin> dict_keys (base_metadata s')"
proof -
  from assms(1) obtain unit bm where
    a: "efold edhistory_step (find_all ''event'' unit) (base_metadata s) = Inr bm"
    and c: "s' = s\<lparr>base_metadata := bm\<rparr>"
    by (auto simp: WileyParser_parse_edhistory_def ebind_Inr_iff)
  have "''keywords'' \<notin> dict_keys bm"
    by (rule efold_invariant[where P = "\<lambda>bm. ''keywords'' \<notin> dict_keys bm", OF assms(2) a])
      (rule edhistory_step_no_keywords)
  with c show ?thesis by simp
qed

lemma title_step_no_keywords:
  "''keywords'' \<notin> dict_keys bm \<Longrightarrow> title_step t bm = Inr bm' \<Longrightarrow> ''keywords'' \<notin> dict_keys bm'"
  by (auto simp: title_step_def split: sum.splits if_splits)

lemma abstract_step_no_keywords:
  "''keywords'' \<notin> dict_keys bm \<Longrightarrow> abstract_step clean_output a bm = Inr bm'
     \<Longrightarrow> ''keywords'' \<notin> dict_keys bm'"
  by (auto simp: abstract_step_def split: sum.splits if_splits)

lemma parse_title_abstract_no_keywords:
  assumes "WileyParser_parse_title_abstract clean_output s = Inr s'"
    and "''keywords'' \<notin> dict_keys (base_metadata s)"
  shows "''keywords'' \<notin> dict_keys (base_metadata s')"
proof -
  from assms(1) obtain cm bm1 bm2 where
    a: "(case find_first ''titleGroup'' cm of
           None \<Rightarrow> Inr (base_metadata s)
         | Some tg \<Rightarrow> efold title_step (find_all ''title'' tg) (base_metadata s)) = Inr bm1"
    and b: "(case find_first ''abstractGroup'' cm of
           None \<Rightarrow> Inr bm1
         | Some ag \<Rightarrow> efold (abstract_step clean_output) (find_all ''abstract'' ag) bm1) = Inr bm2"
    and c: "s' = s\<lparr>base_metadata := bm2\<rparr>"
    by (auto simp: WileyParser_parse_title_abstract_def ebind_Inr_iff)
  have k1: "''keywords'' \<notin> dict_keys bm1"
  proof (cases "find_first ''titleGroup'' cm")
    case None
    with a assms(2) show ?thesis by simp
  next
    case (Some tg)
    with a have "efold title_step (find_all ''title'' tg) (base_metadata s) = Inr bm1" by simp
    from assms(2) this show ?thesis
      by (rule efold_invariant[where P = "\<lambda>bm. ''keywords'' \<notin> dict_keys bm"])
        (rule title_step_no_keywords)
  qed
  have k2: "''keywords'' \<notin> dict_keys bm2"
  proof (cases "find_first ''abstractGroup'' cm")
    case None
    with b k1 show ?thesis by simp
  next
    case (Some ag)
    with b have "efold (abstract_step clean_output) (find_all ''abstract'' ag) bm1 = Inr bm2" by simp
    from k1 this show ?thesis
      by (rule efold_invariant[where P = "\<lambda>bm. ''keywords'' \<notin> dict_keys bm"])
        (rule abstract_step_no_keywords)
  qed
  with c show ?thesis by simp
qed

lemma parse_copyright_no_keywords:
  assumes "WileyParser_parse_copyright s = Inr s'" and "''keywords'' \<notin> dict_keys (base_metadata s)"
  shows "''keywords'' \<notin> dict_keys (base_metadata s')"
  using assms
  by (auto simp: WileyParser_parse_copyright_def ebind_Inr_iff split: option.splits)

lemma parse_authors_no_keywords:
  assumes "WileyParser_parse_authors s = Inr s'" and "''keywords'' \<notin> dict_keys (base_metadata s)"
  shows "''keywords'' \<notin> dict_keys (base_metadata s')"
  using assms
  by (auto simp: WileyParser_parse_authors_def ebind_Inr_iff split: if_splits)

text \<open>\<^verbatim>\<open>_parse_keywords\<close> changes nothing, whatever keyword nodes the content holds.\<close>

lemma parse_keywords_frame: "WileyParser_parse_keywords s = Inr s' \<Longrightarrow> s' = s"
  by (auto simp: WileyParser_parse_keywords_def ebind_Inr_iff Let_def)

lemma parse_references_no_keywords:
  assumes "WileyParser_parse_references to_str s = Inr s'"
    and "''keywords'' \<notin> dict_keys (base_metadata s)"
  shows "''keywords'' \<notin> dict_keys (base_metadata s')"
  using assms
  by (auto simp: WileyParser_parse_references_def Let_def split: option.splits)

lemma parse_tree_no_keywords:
  assumes "WileyParser_parse_tree clean_output to_str d s = Inr s'"
    and "''keywords'' \<notin> dict_keys (base_metadata s)"
  shows "''keywords'' \<notin> dict_keys (base_metadata s')"
proof -
  from assms(1) obtain s1 s2 s3 s4 s5 s6 s7 s8 s9 s10 where
    e1: "efold level_step (find_all ''publicationMeta'' d) s = Inr s1"
    and e2: "WileyParser_parse_ids
               (s1\<lparr>content_meta := find_first ''contentMeta'' d,
                   bib := Some (find_first ''bibliography'' d)\<rparr>) = Inr s2"
    and e3: "WileyParser_parse_pub s2 = Inr s3"
    and e4: "WileyParser_parse_page s3 = Inr s4"
    and e5: "WileyParser_parse_pubdate s4 = Inr s5"
    and e6: "WileyParser_parse_edhistory s5 = Inr s6"
    and e7: "WileyParser_parse_title_abstract clean_output s6 = Inr s7"
    and e8: "WileyParser_parse_copyright s7 = Inr s8"
    and e9: "WileyParser_parse_authors s8 = Inr s9"
    and e10: "WileyParser_parse_keywords s9 = Inr s10"
    and e11: "WileyParser_parse_references to_str s10 = Inr s'"
    unfolding WileyParser_parse_tree_def ebind_Inr_iff by blast
  from efold_level_step_metadata[OF e1] assms(2)
  have "''keywords'' \<notin> dict_keys (base_metadata
          (s1\<lparr>content_meta := find_first ''contentMeta'' d, bib := Some (find_first ''bibliography'' d)\<rparr>))"
    by simp
  from parse_ids_no_keywords[OF e2 this] have "''keywords'' \<notin> dict_keys (base_metadata s2)" .
  from parse_pub_no_keywords[OF e3 this] have "''keywords'' \<notin> dict_keys (base_metadata s3)" .
  from parse_page_no_keywords[OF e4 this] have "''keywords'' \<notin> dict_keys (base_metadata s4)" .
  from parse_pubdate_no_keywords[OF e5 this] have "''keywords'' \<notin> dict_keys (base_metadata s5)" .
  from parse_edhistory_no_keywords[OF e6 this] have "''keywords'' \<notin> dict_keys (base_metadata s6)" .
  from parse_title_abstract_no_keywords[OF e7 this] have "''keywords'' \<notin> dict_keys (base_metadata s7)" .
  from parse_copyright_no_keywords[OF e8 this] have "''keywords'' \<notin> dict_keys (base_metadata s8)" .
  from parse_authors_no_keywords[OF e9 this] have "''keywords'' \<notin> dict_keys (base_metadata s9)" .
  with parse_keywords_frame[OF e10] have "''keywords'' \<notin> dict_keys (base_metadata s10)" by simp
  from parse_references_no_keywords[OF e11 this] show ?thesis .
qed

text \<open>
  C10. Whenever \<^verbatim>\<open>parse\<close> returns on a parser whose \<^verbatim>\<open>base_metadata\<close> had no
  \<^verbatim>\<open>keywords\<close> key (a fresh parser has none), the record it returns is
  \<^verbatim>\<open>format\<close> applied to a \<^verbatim>\<open>base_metadata\<close> without a \<^verbatim>\<open>keywords\<close> key;
  and \<^verbatim>\<open>_parse_keywords\<close>, whenever it returns, returns the state it was given,
  whatever keyword nodes the content holds.
\<close>

theorem wiley_no_keywords:
  assumes "''keywords'' \<notin> dict_keys (base_metadata st)"
    and "WileyParser_parse bsstrtodict clean_output to_str format_out doc st = Inr (out, st')"
  shows "out = format_out (base_metadata st')
       \<and> ''keywords'' \<notin> dict_keys (base_metadata st')
       \<and> dict_get (base_metadata st') ''keywords'' = None
       \<and> (\<forall>s s'. WileyParser_parse_keywords s = Inr s' \<longrightarrow> s' = s)"
proof -
  from assms(2) obtain d where
    t: "WileyParser_parse_tree clean_output to_str d st = Inr st'"
    and o: "out = format_out (base_metadata st')"
    by (auto simp: WileyParser_parse_def ebind_Inr_iff split: option.splits)
  from parse_tree_no_keywords[OF t assms(1)]
  have k: "''keywords'' \<notin> dict_keys (base_metadata st')" .
  then have g: "dict_get (base_metadata st') ''keywords'' = None"
    by (simp add: dict_keys_get)
  from o k g parse_keywords_frame show ?thesis by blast
qed

lemma ex_resolved_parse:
  "map_sum id fst (WileyParser_parse ex_wiley_loader id get_text id ''resolved'' WileyParser_init) =
     Inr [(''ids'', JDict [(''doi'', JStr ''10.1000/abc''), (''pub-id'', JList [])]),
          (''issn'', JList [JTuple [JStr ''print'', JStr ''0004-637X'']]),
          (''publication'', JStr ''Journal of Examples''),
          (''volume'', JStr ''12''),
          (''page_first'', JStr ''101''),
          (''pubdate_print'', JStr ''2020-05-00''),
          (''pubdate_electronic'', JStr ''2020-01-15''),
          (''title'', JStr ''A paper''),
          (''authors'',
           JList [JDict [(''given'', JStr ''J.''), (''surname'', JStr ''Doe''),
                         (''aff'', JList [JStr ''Univ A'', JStr ''Univ B, NL'']),
                         (''xaff'', JList [JStr ''a1'', JStr ''a2''])],
                  JDict [(''given'', JStr ''J.''), (''surname'', JStr ''Roe'')]])]"
  by code_simp

theorem wiley_no_keywords_witness:
  "find_all ''keyword'' (ex_content ''resolved'')
     = [Elem ''keyword'' [] [Text ''stars''], Elem ''keyword'' [] [Text ''galaxies'']]
   \<and> ''keywords'' \<notin> dict_keys (base_metadata WileyParser_init)
   \<and> (\<exists>out st'. WileyParser_parse ex_wiley_loader id get_text id ''resolved'' WileyParser_init
                   = Inr (out, st')
         \<and> out = base_metadata st'
         \<and> dict_get out ''keywords'' = None)"
proof -
  have kw: "find_all ''keyword'' (ex_content ''resolved'')
     = [Elem ''keyword'' [] [Text ''stars''], Elem ''keyword'' [] [Text ''galaxies'']]"
    by code_simp
  have h1: "''keywords'' \<notin> dict_keys (base_metadata WileyParser_init)"
    by (simp add: WileyParser_init_def dict_keys_def)
  from ex_resolved_parse obtain out st' where
    h2: "WileyParser_parse ex_wiley_loader id get_text id ''resolved'' WileyParser_init = Inr (out, st')"
    by (cases "WileyParser_parse ex_wiley_loader id get_text id ''resolved'' WileyParser_init") auto
  from wiley_no_keywords[OF h1 h2] have "out = base_metadata st' \<and> dict_get out ''keywords'' = None"
    by simp
  with kw h1 h2 show ?thesis by blast
qed

end
